theory Spec2Isabelle
  imports Main "HOL-Library.AList"
begin

section \<open>JavaScript values and strings\<close>

text \<open>
  The client (class \<open>BrainusAI\<close>) is written in TypeScript; at run time its values are
  JavaScript values. A parsed JSON document is a \<open>json\<close>; a JavaScript value that may
  be \<open>undefined\<close> is a \<open>json option\<close> with \<open>None\<close> for \<open>undefined\<close>. An object
  keeps its own properties in insertion order, one entry per key. Numbers are only
  copied or printed by the client, never computed with; they are integers here, those
  that JavaScript represents exactly and prints in full (of magnitude below \<open>2 ^ 53\<close>).
  Strings are lists of characters with codes up to 255; the string operations of the
  client (\<open>startsWith\<close>, \<open>includes\<close>, \<open>toLowerCase\<close> followed by a search for an ASCII
  word, \<open>parseInt\<close> of a header value) depend on ASCII characters and on the no-break
  space only.
\<close>

datatype json =
    JNull
  | JBool bool
  | JNum int
  | JStr string
  | JArr "json list"
  | JObj "(string \<times> json) list"

text \<open>JavaScript truthiness: \<open>null\<close>, \<open>false\<close>, \<open>0\<close> and \<open>""\<close> are falsy, as is \<open>undefined\<close>.\<close>

fun truthy :: "json \<Rightarrow> bool" where
  "truthy JNull = False"
| "truthy (JBool b) = b"
| "truthy (JNum n) = (n \<noteq> 0)"
| "truthy (JStr s) = (s \<noteq> [])"
| "truthy (JArr xs) = True"
| "truthy (JObj kvs) = True"

text \<open>\<open>a || b\<close> where \<open>b\<close> is not \<open>undefined\<close>.\<close>

definition or_else :: "json option \<Rightarrow> json \<Rightarrow> json" where
  "or_else a b = (case a of None \<Rightarrow> b | Some v \<Rightarrow> if truthy v then v else b)"

text \<open>
  Errors. Errors that are not instances of the client's own classes (a \<open>TypeError\<close>
  of the runtime, the \<open>Error\<close> of the constructor, the rejection of \<open>fetch\<close> or of
  \<open>response.json()\<close>) are \<open>JsError name message\<close>.

  Modelled from the spec: the module \<open>./errors\<close> with the classes
  \<open>AuthenticationError\<close>, \<open>RateLimitError\<close>, \<open>QuotaExceededError\<close> and \<open>APIError\<close>
  is not among the sources. The specification lists them as distinct error kinds (a
  tagged union): an authentication error, a rate-limit error carrying an optional
  retry-after hint, a quota-exceeded error, and an API error carrying an optional status
  code. The arguments are those of the constructor calls in \<open>handleErrorResponse\<close> and
  \<open>makeRequest\<close>; \<open>instanceof\<close> is the test for the constructor.
\<close>

datatype jsnum = NaN | Finite int | PosInfinity | NegInfinity

datatype error =
    AuthenticationError string
  | RateLimitError string "jsnum option"
  | QuotaExceededError string
  | APIError string "nat option"
  | JsError string string

fun error_message :: "error \<Rightarrow> string" where
  "error_message (AuthenticationError m) = m"
| "error_message (RateLimitError m ra) = m"
| "error_message (QuotaExceededError m) = m"
| "error_message (APIError m sc) = m"
| "error_message (JsError n m) = m"

text \<open>
  Property read \<open>v.k\<close> on a parsed JSON value, for the keys the client reads (none of
  them is a built-in property of strings, numbers, booleans or arrays): \<open>null\<close> has no
  properties and the read throws a \<open>TypeError\<close>; an object gives its own property or
  \<open>undefined\<close>; every other value gives \<open>undefined\<close>. The message is V8's.
\<close>

definition null_read :: "string \<Rightarrow> error" where
  "null_read k = JsError ''TypeError'' (''Cannot read properties of null (reading '' @ [CHR 0x27] @ k @ [CHR 0x27] @ '')'')"

definition undefined_read :: "string \<Rightarrow> error" where
  "undefined_read k = JsError ''TypeError'' (''Cannot read properties of undefined (reading '' @ [CHR 0x27] @ k @ [CHR 0x27] @ '')'')"

fun get_prop :: "json \<Rightarrow> string \<Rightarrow> error + json option" where
  "get_prop JNull k = Inl (null_read k)"
| "get_prop (JObj kvs) k = Inr (map_of kvs k)"
| "get_prop v k = Inr None"

subsection \<open>Strings\<close>

definition startsWith :: "string \<Rightarrow> string \<Rightarrow> bool" where
  "startsWith s p = (take (length p) s = p)"

fun str_includes :: "string \<Rightarrow> string \<Rightarrow> bool" where
  "str_includes [] t = (t = [])"
| "str_includes (c # cs) t = (startsWith (c # cs) t \<or> str_includes cs t)"

definition toLowerCase_char :: "char \<Rightarrow> char" where
  "toLowerCase_char c =
     (let n = (of_char c :: nat) in if 65 \<le> n \<and> n \<le> 90 then char_of (n + 32) else c)"

definition toLowerCase :: "string \<Rightarrow> string" where
  "toLowerCase s = map toLowerCase_char s"

text \<open>Decimal printing of an integer, as a template literal prints a number.\<close>

definition digit_char :: "nat \<Rightarrow> char" where
  "digit_char d = ''0123456789'' ! d"

fun nat_to_string :: "nat \<Rightarrow> string" where
  "nat_to_string n =
     (if n < 10 then [digit_char n] else nat_to_string (n div 10) @ [digit_char (n mod 10)])"

definition int_to_string :: "int \<Rightarrow> string" where
  "int_to_string i =
     (if i < 0 then CHR ''-'' # nat_to_string (nat (- i)) else nat_to_string (nat i))"

text \<open>
  \<open>parseInt(s, 10)\<close>: leading white space is skipped (in a header value: the ASCII
  white space and the no-break space), then an optional sign, then the longest run of
  decimal digits; without a digit the result is \<open>NaN\<close>. The result is a double: the
  integer read, rounded to 53 significant bits (to nearest, ties to even) and infinite
  from \<open>2 ^ 1024\<close> on. The sign of a zero is not modelled.
\<close>

definition is_space :: "char \<Rightarrow> bool" where
  "is_space c = (let n = (of_char c :: nat) in n = 32 \<or> (9 \<le> n \<and> n \<le> 13) \<or> n = 160)"

definition is_digit :: "char \<Rightarrow> bool" where
  "is_digit c = (let n = (of_char c :: nat) in 48 \<le> n \<and> n \<le> 57)"

definition digits_value :: "string \<Rightarrow> nat" where
  "digits_value ds = foldl (\<lambda>a c. 10 * a + (of_char c - 48)) 0 ds"

fun bit_length :: "nat \<Rightarrow> nat" where
  "bit_length n = (if n = 0 then 0 else Suc (bit_length (n div 2)))"

definition to_double :: "nat \<Rightarrow> nat option" where
  "to_double n =
     (if n < 2 ^ 53 then Some n
      else (let e = bit_length n - 53;
                q = n div 2 ^ e;
                r = n mod 2 ^ e;
                m = (if 2 * r > 2 ^ e \<or> (2 * r = 2 ^ e \<and> odd q) then q + 1 else q)
            in if m * 2 ^ e \<ge> 2 ^ 1024 then None else Some (m * 2 ^ e)))"

definition parseInt :: "string \<Rightarrow> jsnum" where
  "parseInt s =
     (let t = dropWhile is_space s;
          neg = (case t of [] \<Rightarrow> False | c # r \<Rightarrow> c = CHR ''-'');
          u = (case t of [] \<Rightarrow> [] | c # r \<Rightarrow> if c = CHR ''-'' \<or> c = CHR ''+'' then r else t);
          ds = takeWhile is_digit u
      in if ds = [] then NaN
         else (case to_double (digits_value ds) of
                 None \<Rightarrow> if neg then NegInfinity else PosInfinity
               | Some v \<Rightarrow> Finite (if neg then - int v else int v)))"

text \<open>
  \<open>String(v)\<close>, the conversion the \<open>Error\<close> constructor applies to its message: a
  string is itself; an array joins its elements with commas, \<open>null\<close> elements printing
  as nothing; an object prints as \<open>[object Object]\<close>.
\<close>

fun js_to_string :: "json \<Rightarrow> string"
  and join_elems :: "json list \<Rightarrow> string" where
  "js_to_string JNull = ''null''"
| "js_to_string (JBool b) = (if b then ''true'' else ''false'')"
| "js_to_string (JNum n) = int_to_string n"
| "js_to_string (JStr s) = s"
| "js_to_string (JArr xs) = join_elems xs"
| "js_to_string (JObj kvs) = ''[object Object]''"
| "join_elems [] = []"
| "join_elems [x] = (if x = JNull then [] else js_to_string x)"
| "join_elems (x # y # ys) =
     (if x = JNull then [] else js_to_string x) @ '','' @ join_elems (y # ys)"

section \<open>Client construction\<close>

record BrainusAIConfig =
  cfg_apiKey :: "string option"
  cfg_baseUrl :: "string option"
  cfg_timeout :: "int option"
  cfg_maxRetries :: "int option"

text \<open>
  The configuration as the caller gives it (\<open>None\<close> for a field that is \<open>undefined\<close>)
  and the client's private fields. The timeout and the retry count are integers, of any
  sign; the other numbers of JavaScript (fractions, \<open>NaN\<close>, \<open>Infinity\<close>) are not
  modelled.
\<close>

record BrainusAI =
  apiKey :: string
  baseUrl :: string
  timeout :: int
  maxRetries :: int

text \<open>
  The requests issued and the waits made (in milliseconds) so far: the client's only
  effects. A request is the URL and the options given to \<open>fetch\<close>; its \<open>body\<close> is the
  value that \<open>JSON.stringify\<close> serialises, \<open>None\<close> when no body is sent, and
  \<open>signal_timeout\<close> is the argument of \<open>AbortSignal.timeout\<close>.
\<close>

record request =
  url :: string
  http_method :: string
  headers :: "(string \<times> string) list"
  body :: "json option"
  signal_timeout :: int

record world =
  calls :: "request list"
  sleeps :: "int list"

text \<open>\<open>a ?? b\<close>.\<close>

definition nullish :: "'a option \<Rightarrow> 'a \<Rightarrow> 'a" where
  "nullish a b = (case a of None \<Rightarrow> b | Some v \<Rightarrow> v)"

definition invalid_key :: error where
  "invalid_key = JsError ''Error'' ''Invalid API key format. Expected format: brainus_...''"

definition constructor :: "BrainusAIConfig \<Rightarrow> world \<Rightarrow> (error + BrainusAI) \<times> world" where
  "constructor config w =
     (case cfg_apiKey config of
        None \<Rightarrow> (Inl invalid_key, w)
      | Some k \<Rightarrow>
          if k = [] \<or> \<not> startsWith k ''brainus_'' then (Inl invalid_key, w)
          else (Inr \<lparr> apiKey = k,
                      baseUrl = nullish (cfg_baseUrl config) ''https://api.brainus.lk'',
                      timeout = nullish (cfg_timeout config) 30000,
                      maxRetries = nullish (cfg_maxRetries config) 3 \<rparr>, w))"

section \<open>Error mapping\<close>

text \<open>
  What \<open>fetch\<close> resolves with, as far as the client looks at it: the status, the status
  text, \<open>headers.get("Retry-After")\<close>, and the outcome of \<open>response.json()\<close>, which
  either rejects with an error of the runtime (its name and message) or resolves with
  the parsed body.
\<close>

record response =
  status :: nat
  statusText :: string
  retry_after :: "string option"
  json_result :: "(string \<times> string) + json"

definition ok :: "response \<Rightarrow> bool" where
  "ok r = (200 \<le> status r \<and> status r \<le> 299)"

definition not_a_function :: "string \<Rightarrow> error" where
  "not_a_function f = JsError ''TypeError'' (f @ '' is not a function'')"

text \<open>
  \<open>errorMessage.includes(t)\<close> and \<open>errorMessage.toLowerCase()\<close>. The source declares
  \<open>errorMessage\<close> a string; the body's fields are not checked, so at run time it is
  whatever truthy value the body holds. An array has an \<open>includes\<close> of its own (is
  \<open>t\<close> an element); other values have neither method and the call throws.
\<close>

fun js_includes :: "json \<Rightarrow> string \<Rightarrow> error + bool" where
  "js_includes (JStr s) t = Inr (str_includes s t)"
| "js_includes (JArr xs) t = Inr (List.member xs (JStr t))"
| "js_includes v t = Inl (not_a_function ''errorMessage.includes'')"

fun js_toLowerCase :: "json \<Rightarrow> error + string" where
  "js_toLowerCase (JStr s) = Inr (toLowerCase s)"
| "js_toLowerCase v = Inl (not_a_function ''errorMessage.toLowerCase'')"

text \<open>
  The first half of \<open>handleErrorResponse\<close>: the \<open>try\<close> around \<open>response.json()\<close> and
  \<open>errorData.detail || errorData.message || response.statusText\<close>. A rejected
  \<open>json()\<close> and the \<open>TypeError\<close> of reading \<open>null.detail\<close> both end in the \<open>catch\<close>.
\<close>

definition errorMessage_of :: "response \<Rightarrow> json" where
  "errorMessage_of r =
     (case json_result r of
        Inl err \<Rightarrow> JStr (statusText r)
      | Inr errorData \<Rightarrow>
          (case get_prop errorData ''detail'' of
             Inl err \<Rightarrow> JStr (statusText r)
           | Inr detail \<Rightarrow>
               (case get_prop errorData ''message'' of
                  Inl err \<Rightarrow> JStr (statusText r)
                | Inr message \<Rightarrow> or_else detail (or_else message (JStr (statusText r))))))"

definition no_store_text :: string where
  "no_store_text = ''No store_id provided and no default store configured''"

definition no_store_clarified :: string where
  "no_store_clarified =
     ''No store_id provided and no default store configured. Please provide a store_id in your request.''"

text \<open>
  \<open>handleErrorResponse\<close> is declared to return \<open>Promise<never>\<close>. The model gives it
  the result type \<open>error + unit\<close>, so that returning normally (\<open>Inr ()\<close>) is a possible
  value and "it always throws" is a property to prove.
\<close>

definition handleErrorResponse :: "response \<Rightarrow> error + unit" where
  "handleErrorResponse r =
     (let errorMessage = errorMessage_of r in
      if status r = 401 then Inl (AuthenticationError (js_to_string errorMessage))
      else if status r = 429 then
        Inl (RateLimitError (js_to_string errorMessage)
               (case retry_after r of
                  None \<Rightarrow> None
                | Some retryAfter \<Rightarrow> if retryAfter = [] then None else Some (parseInt retryAfter)))
      else if status r = 400 then
        (case js_includes errorMessage no_store_text of
           Inl err \<Rightarrow> Inl err
         | Inr found \<Rightarrow>
             if found then Inl (APIError no_store_clarified (Some 400))
             else Inl (APIError (js_to_string errorMessage) (Some (status r))))
      else if status r = 403 then
        (case js_toLowerCase errorMessage of
           Inl err \<Rightarrow> Inl err
         | Inr lower \<Rightarrow>
             if str_includes lower ''quota'' then Inl (QuotaExceededError (js_to_string errorMessage))
             else Inl (APIError (js_to_string errorMessage) (Some (status r))))
      else Inl (APIError (js_to_string errorMessage) (Some (status r))))"

section \<open>The request loop\<close>

text \<open>
  \<open>fetch\<close> either rejects (a network failure, or the abort by the timeout signal)
  with an error of the runtime, or resolves with a response. The transport is any
  function of the number of requests issued before and of the request.
\<close>

datatype fetch_outcome = Rejects string string | Resolves response

type_synonym transport = "nat \<Rightarrow> request \<Rightarrow> fetch_outcome"

text \<open>The body of the \<open>try\<close> block of one attempt, after \<open>fetch\<close> has settled.\<close>

definition attempt_body :: "fetch_outcome \<Rightarrow> error + json" where
  "attempt_body out =
     (case out of
        Rejects n m \<Rightarrow> Inl (JsError n m)
      | Resolves r \<Rightarrow>
          (case (if \<not> ok r then handleErrorResponse r else Inr ()) of
             Inl err \<Rightarrow> Inl err
           | Inr u \<Rightarrow>
               (case json_result r of
                  Inl (n, m) \<Rightarrow> Inl (JsError n m)
                | Inr v \<Rightarrow> Inr v)))"

text \<open>
  The test of the \<open>catch\<close> block that re-throws at once. \<open>error.statusCode && \<dots>\<close>
  is false for an absent status code and for the status code 0.
\<close>

fun rethrown :: "error \<Rightarrow> bool" where
  "rethrown (AuthenticationError m) = True"
| "rethrown (QuotaExceededError m) = True"
| "rethrown (APIError m statusCode) =
     (case statusCode of None \<Rightarrow> False | Some sc \<Rightarrow> sc \<noteq> 0 \<and> sc < 500)"
| "rethrown e = False"

definition exhausted :: "BrainusAI \<Rightarrow> error option \<Rightarrow> error" where
  "exhausted c lastError =
     APIError (''Request failed after '' @ int_to_string (maxRetries c + 1) @ '' attempts: ''
               @ (case lastError of None \<Rightarrow> ''undefined'' | Some e \<Rightarrow> error_message e)) None"

text \<open>
  \<open>AbortSignal.timeout(ms)\<close> as Node has it: an integer from 0 to \<open>2 ^ 32 - 1\<close> gives a
  signal; any other integer throws a \<open>RangeError\<close>, whose message shows the value, with
  \<open>_\<close> between groups of three digits when its magnitude exceeds \<open>2 ^ 32\<close>. The
  constructor of the client does not check the timeout, so the throw happens in
  \<open>makeRequest\<close>, inside the \<open>try\<close> block, when the arguments of \<open>fetch\<close> are evaluated:
  \<open>fetch\<close> is not called then.
\<close>

fun group3 :: "string \<Rightarrow> string" where
  "group3 ds =
     (if length ds \<le> 3 then ds
      else group3 (take (length ds - 3) ds) @ ''_'' @ drop (length ds - 3) ds)"

definition received :: "int \<Rightarrow> string" where
  "received ms =
     (if \<bar>ms\<bar> > 2 ^ 32
      then (if ms < 0 then CHR ''-'' # group3 (nat_to_string (nat (- ms)))
            else group3 (nat_to_string (nat ms)))
      else int_to_string ms)"

definition out_of_range :: "int \<Rightarrow> error" where
  "out_of_range ms =
     JsError ''RangeError''
       (''The value of '' @ [CHR 0x22] @ ''delay'' @ [CHR 0x22]
        @ '' is out of range. It must be >= 0 && <= 4294967295. Received '' @ received ms)"

definition abortSignal_timeout :: "int \<Rightarrow> error + int" where
  "abortSignal_timeout ms =
     (if 0 \<le> ms \<and> ms \<le> 4294967295 then Inr ms else Inl (out_of_range ms))"

text \<open>
  The arguments of \<open>fetch\<close>: \<open>request_of\<close> is the request for a timeout that
  \<open>AbortSignal.timeout\<close> accepts; \<open>build_request\<close> is their evaluation, which throws
  when it does not.
\<close>

definition request_of :: "BrainusAI \<Rightarrow> string \<Rightarrow> string \<Rightarrow> json option \<Rightarrow> request" where
  "request_of c meth endpoint bdy =
     \<lparr> url = baseUrl c @ endpoint,
       http_method = meth,
       headers = [(''X-API-Key'', apiKey c), (''Content-Type'', ''application/json''),
                  (''User-Agent'', ''@brainus/ai/0.1.0'')],
       body = (case bdy of None \<Rightarrow> None | Some b \<Rightarrow> if truthy b then Some b else None),
       signal_timeout = timeout c \<rparr>"

definition build_request :: "BrainusAI \<Rightarrow> string \<Rightarrow> string \<Rightarrow> json option \<Rightarrow> error + request" where
  "build_request c meth endpoint bdy =
     (case abortSignal_timeout (timeout c) of
        Inl err \<Rightarrow> Inl err
      | Inr signal \<Rightarrow> Inr (request_of c meth endpoint bdy))"

text \<open>
  The \<open>try\<close> block of one attempt: the arguments are evaluated, then \<open>fetch\<close> is called
  (the request is issued) and its outcome handled.
\<close>

definition try_block ::
  "BrainusAI \<Rightarrow> transport \<Rightarrow> string \<Rightarrow> string \<Rightarrow> json option \<Rightarrow> world \<Rightarrow> (error + json) \<times> world"
where
  "try_block c tr meth endpoint bdy w =
     (case build_request c meth endpoint bdy of
        Inl err \<Rightarrow> (Inl err, w)
      | Inr req \<Rightarrow> (attempt_body (tr (length (calls w)) req), w\<lparr>calls := calls w @ [req]\<rparr>))"

function attempt_loop ::
  "BrainusAI \<Rightarrow> transport \<Rightarrow> string \<Rightarrow> string \<Rightarrow> json option \<Rightarrow> int \<Rightarrow> error option \<Rightarrow> world
   \<Rightarrow> (error + json) \<times> world"
where
  "attempt_loop c tr meth endpoint bdy attempt lastError w =
     (if attempt \<le> maxRetries c then
        (case try_block c tr meth endpoint bdy w of
           (Inr v, w1) \<Rightarrow> (Inr v, w1)
         | (Inl e, w1) \<Rightarrow>
             if rethrown e then (Inl e, w1)
             else attempt_loop c tr meth endpoint bdy (attempt + 1) (Some e)
                    (if attempt < maxRetries c
                     then w1\<lparr>sleeps := sleeps w1 @ [min (1000 * 2 ^ nat attempt) 10000]\<rparr>
                     else w1))
      else (Inl (exhausted c lastError), w))"
  by pat_completeness auto
termination
  by (relation "measure (\<lambda>(c, tr, meth, endpoint, bdy, attempt, lastError, w).
                           nat (maxRetries c + 1 - attempt))") auto

declare attempt_loop.simps [simp del]

definition makeRequest ::
  "BrainusAI \<Rightarrow> transport \<Rightarrow> string \<Rightarrow> string \<Rightarrow> json option \<Rightarrow> world \<Rightarrow> (error + json) \<times> world"
where
  "makeRequest c tr meth endpoint bdy w = attempt_loop c tr meth endpoint bdy 0 None w"

section \<open>Typed operations\<close>

record QueryFilters =
  subject :: "string option"
  grade :: "string option"
  year :: "string option"
  category :: "string option"
  language :: "string option"

record QueryRequest =
  rq_query :: string
  rq_storeId :: "string option"
  rq_filters :: "QueryFilters option"
  rq_model :: "string option"

record Citation =
  documentId :: "json option"
  documentName :: "json option"
  pages :: json
  metadata :: "json option"
  chunkText :: "json option"

record QueryResponse =
  answer :: "json option"
  citations :: "Citation list"
  hasCitations :: "json option"

record Plan =
  plan_id :: "json option"
  plan_name :: "json option"
  plan_description :: "json option"
  rateLimitPerMinute :: "json option"
  rateLimitPerDay :: "json option"
  monthlyQuota :: "json option"
  priceLkr :: "json option"
  allowedModels :: json
  features :: json
  isActive :: "json option"

text \<open>
  The filters object as \<open>JSON.stringify\<close> sends it: a property that is \<open>undefined\<close> is
  left out.
\<close>

definition filters_json :: "QueryFilters \<Rightarrow> json" where
  "filters_json f =
     JObj (List.map_filter (\<lambda>(k, v). map_option (\<lambda>s. (k, JStr s)) v)
             [(''subject'', subject f), (''grade'', grade f), (''year'', year f),
              (''category'', category f), (''language'', language f)])"

text \<open>The request body of \<open>query\<close>; \<open>body.k = v\<close> is \<open>AList.update k v\<close>.\<close>

definition query_body :: "QueryRequest \<Rightarrow> (string \<times> json) list" where
  "query_body request =
     (let body0 = [(''query'', JStr (rq_query request))];
          body1 = (case rq_storeId request of
                     None \<Rightarrow> body0
                   | Some s \<Rightarrow> AList.update ''store_id'' (JStr s) body0);
          body2 = (case rq_filters request of
                     None \<Rightarrow> body1
                   | Some f \<Rightarrow> AList.update ''filters'' (filters_json f) body1);
          body3 = (case rq_model request of
                     None \<Rightarrow> body2
                   | Some m \<Rightarrow> AList.update ''model'' (JStr m) body2)
      in body3)"

text \<open>Sequencing of computations that may throw, and \<open>Array.prototype.map\<close> with a
  callback that may throw: the first exception ends the whole.\<close>

definition and_then :: "error + 'a \<Rightarrow> ('a \<Rightarrow> error + 'b) \<Rightarrow> error + 'b" where
  "and_then x f = (case x of Inl e \<Rightarrow> Inl e | Inr v \<Rightarrow> f v)"

fun map_throwing :: "('a \<Rightarrow> error + 'b) \<Rightarrow> 'a list \<Rightarrow> error + 'b list" where
  "map_throwing f [] = Inr []"
| "map_throwing f (x # xs) =
     and_then (f x) (\<lambda>y. and_then (map_throwing f xs) (\<lambda>ys. Inr (y # ys)))"

text \<open>
  \<open>v.map(f)\<close> for a value \<open>v\<close> that may be \<open>undefined\<close>: only an array has a \<open>map\<close>.
  The \<open>TypeError\<close> for another value names the expression called, given as \<open>callee\<close>.
\<close>

fun js_map :: "string \<Rightarrow> json option \<Rightarrow> (json \<Rightarrow> error + 'b) \<Rightarrow> error + 'b list" where
  "js_map callee None f = Inl (undefined_read ''map'')"
| "js_map callee (Some JNull) f = Inl (null_read ''map'')"
| "js_map callee (Some (JArr xs)) f = map_throwing f xs"
| "js_map callee (Some v) f = Inl (not_a_function (callee @ ''.map''))"

definition remap_citation :: "json \<Rightarrow> error + Citation" where
  "remap_citation c =
     and_then (get_prop c ''document_id'') (\<lambda>document_id.
     and_then (get_prop c ''document_name'') (\<lambda>document_name.
     and_then (get_prop c ''pages'') (\<lambda>pgs.
     and_then (get_prop c ''metadata'') (\<lambda>meta.
     and_then (get_prop c ''chunk_text'') (\<lambda>chunk_text.
       Inr \<lparr> documentId = document_id, documentName = document_name,
             pages = or_else pgs (JArr []), metadata = meta, chunkText = chunk_text \<rparr>)))))"

definition remap_query :: "json \<Rightarrow> error + QueryResponse" where
  "remap_query response =
     and_then (get_prop response ''answer'') (\<lambda>ans.
     and_then (get_prop response ''citations'') (\<lambda>cits.
     and_then (js_map ''(response.citations || [])'' (Some (or_else cits (JArr []))) remap_citation)
       (\<lambda>cs.
     and_then (get_prop response ''has_citations'') (\<lambda>has_citations.
       Inr \<lparr> answer = ans, citations = cs, hasCitations = has_citations \<rparr>))))"

definition query ::
  "BrainusAI \<Rightarrow> transport \<Rightarrow> QueryRequest \<Rightarrow> world \<Rightarrow> (error + QueryResponse) \<times> world"
where
  "query c tr request w =
     (case makeRequest c tr ''POST'' ''/api/v1/dev/query'' (Some (JObj (query_body request))) w of
        (Inl e, w') \<Rightarrow> (Inl e, w')
      | (Inr response, w') \<Rightarrow> (remap_query response, w'))"

definition remap_plan :: "json \<Rightarrow> error + Plan" where
  "remap_plan p =
     and_then (get_prop p ''id'') (\<lambda>p_id.
     and_then (get_prop p ''name'') (\<lambda>p_name.
     and_then (get_prop p ''description'') (\<lambda>p_description.
     and_then (get_prop p ''rate_limit_per_minute'') (\<lambda>rate_limit_per_minute.
     and_then (get_prop p ''rate_limit_per_day'') (\<lambda>rate_limit_per_day.
     and_then (get_prop p ''monthly_quota'') (\<lambda>monthly_quota.
     and_then (get_prop p ''price_lkr'') (\<lambda>price_lkr.
     and_then (get_prop p ''allowed_models'') (\<lambda>allowed_models.
     and_then (get_prop p ''features'') (\<lambda>feats.
     and_then (get_prop p ''is_active'') (\<lambda>is_active.
       Inr \<lparr> plan_id = p_id, plan_name = p_name, plan_description = p_description,
             rateLimitPerMinute = rate_limit_per_minute, rateLimitPerDay = rate_limit_per_day,
             monthlyQuota = monthly_quota, priceLkr = price_lkr,
             allowedModels = or_else allowed_models (JArr []),
             features = or_else feats (JObj []), isActive = is_active \<rparr>))))))))))"

definition remap_plans :: "json \<Rightarrow> error + Plan list" where
  "remap_plans response =
     and_then (get_prop response ''plans'') (\<lambda>plans. js_map ''response.plans'' plans remap_plan)"

definition getPlans :: "BrainusAI \<Rightarrow> transport \<Rightarrow> world \<Rightarrow> (error + Plan list) \<times> world" where
  "getPlans c tr w =
     (case makeRequest c tr ''GET'' ''/api/v1/dev/plans'' None w of
        (Inl e, w') \<Rightarrow> (Inl e, w')
      | (Inr response, w') \<Rightarrow> (remap_plans response, w'))"

section \<open>Notions used in the statements\<close>

text \<open>
  An attempt is retried when it throws an error that the \<open>catch\<close> block does not
  re-throw; \<open>raised\<close> is the error an attempt throws; \<open>backoff k\<close> is the wait after
  attempt \<open>k\<close> (counted from 0) when another attempt follows.
\<close>

definition retried :: "error + json \<Rightarrow> bool" where
  "retried x = (case x of Inl e \<Rightarrow> \<not> rethrown e | Inr v \<Rightarrow> False)"

definition backoff :: "nat \<Rightarrow> int" where
  "backoff k = min (1000 * 2 ^ k) 10000"

definition raised :: "error + json \<Rightarrow> error option" where
  "raised x = (case x of Inl e \<Rightarrow> Some e | Inr v \<Rightarrow> None)"






text \<open>A client as the constructor makes it from a key alone, and a world without history.\<close>

definition default_client :: BrainusAI where
  "default_client = \<lparr> apiKey = ''brainus_test'', baseUrl = ''https://api.brainus.lk'',
                      timeout = 30000, maxRetries = 3 \<rparr>"

definition new_world :: world where
  "new_world = \<lparr> calls = [], sleeps = [] \<rparr>"

declare nat_to_string.simps [simp del]

declare group3.simps [simp del]

declare bit_length.simps [simp del]

section \<open>Properties\<close>

subsection \<open>The loop, one step at a time\<close>

lemma build_request_valid:
  assumes "0 \<le> timeout c" "timeout c \<le> 4294967295"
  shows "build_request c meth endpoint bdy = Inr (request_of c meth endpoint bdy)"
  using assms by (simp add: build_request_def abortSignal_timeout_def)

lemma build_request_invalid:
  assumes "timeout c < 0 \<or> 4294967295 < timeout c"
  shows "build_request c meth endpoint bdy = Inl (out_of_range (timeout c))"
  using assms by (auto simp: build_request_def abortSignal_timeout_def)

lemma try_block_request:
  assumes "build_request c meth endpoint bdy = Inr req"
  shows "try_block c tr meth endpoint bdy w =
     (attempt_body (tr (length (calls w)) req), w\<lparr>calls := calls w @ [req]\<rparr>)"
  using assms by (simp add: try_block_def)

lemma loop_step_retried:
  assumes "build_request c meth endpoint bdy = Inr req"
    and "attempt \<le> maxRetries c" "retried (attempt_body (tr (length (calls w)) req))"
  shows "\<exists>e. attempt_body (tr (length (calls w)) req) = Inl e \<and>
     attempt_loop c tr meth endpoint bdy attempt le w =
     attempt_loop c tr meth endpoint bdy (attempt + 1) (Some e)
       (if attempt < maxRetries c
        then w\<lparr>calls := calls w @ [req], sleeps := sleeps w @ [min (1000 * 2 ^ nat attempt) 10000]\<rparr>
        else w\<lparr>calls := calls w @ [req]\<rparr>)"
  using assms
  by (subst attempt_loop.simps) (auto simp: try_block_request retried_def split: sum.splits)

lemma loop_step_settled:
  assumes "build_request c meth endpoint bdy = Inr req"
    and "attempt \<le> maxRetries c" "\<not> retried (attempt_body (tr (length (calls w)) req))"
  shows "attempt_loop c tr meth endpoint bdy attempt le w =
     (attempt_body (tr (length (calls w)) req), w\<lparr>calls := calls w @ [req]\<rparr>)"
  using assms
  by (subst attempt_loop.simps) (auto simp: try_block_request retried_def split: sum.splits)

lemma loop_step_done:
  assumes "\<not> attempt \<le> maxRetries c"
  shows "attempt_loop c tr meth endpoint bdy attempt le w = (Inl (exhausted c le), w)"
  using assms by (subst attempt_loop.simps) simp

lemma loop_settles:
  assumes req: "build_request c meth endpoint bdy = Inr req"
  shows "(\<And>j. j < n \<Longrightarrow> retried (attempt_body (tr (length (calls w) + j) req)))
    \<Longrightarrow> \<not> retried (attempt_body (tr (length (calls w) + n) req))
    \<Longrightarrow> 0 \<le> a \<Longrightarrow> a + int n \<le> maxRetries c
    \<Longrightarrow> attempt_loop c tr meth endpoint bdy a le w =
     (attempt_body (tr (length (calls w) + n) req),
      w\<lparr>calls := calls w @ replicate (Suc n) req,
        sleeps := sleeps w @ map backoff [nat a..<nat a + n]\<rparr>)"
proof (induction n arbitrary: a le w)
  case 0
  then show ?case by (simp add: loop_step_settled[OF req])
next
  case (Suc n)
  from Suc.prems(1)[of 0] have r0: "retried (attempt_body (tr (length (calls w)) req))" by simp
  from Suc.prems have a: "a \<le> maxRetries c" "a < maxRetries c" by auto
  let ?w = "w\<lparr>calls := calls w @ [req], sleeps := sleeps w @ [min (1000 * 2 ^ nat a) 10000]\<rparr>"
  from loop_step_retried[OF req, of a tr w le] a r0 obtain e where
    e: "attempt_loop c tr meth endpoint bdy a le w = attempt_loop c tr meth endpoint bdy (a + 1) (Some e) ?w" by auto
  have "attempt_loop c tr meth endpoint bdy (a + 1) (Some e) ?w =
     (attempt_body (tr (length (calls ?w) + n) req),
      ?w\<lparr>calls := calls ?w @ replicate (Suc n) req,
        sleeps := sleeps ?w @ map backoff [nat (a + 1)..<nat (a + 1) + n]\<rparr>)"
  proof (rule Suc.IH)
    fix j assume "j < n"
    then show "retried (attempt_body (tr (length (calls ?w) + j) req))"
      using Suc.prems(1)[of "Suc j"] by simp
  next
    show "\<not> retried (attempt_body (tr (length (calls ?w) + n) req))"
      using Suc.prems(2) by simp
  qed (use Suc.prems in auto)
  moreover have "nat (a + 1) = Suc (nat a)" using Suc.prems(3) by simp
  moreover have "[nat a..<nat a + Suc n] = nat a # [Suc (nat a)..<Suc (nat a) + n]"
    by (simp add: upt_rec)
  ultimately show ?case
    unfolding e by (simp add: backoff_def replicate_append_same)
qed

lemma loop_exhausts:
  assumes req: "build_request c meth endpoint bdy = Inr req"
  shows "(\<And>j. j < n \<Longrightarrow> retried (attempt_body (tr (length (calls w) + j) req)))
    \<Longrightarrow> 0 \<le> a \<Longrightarrow> a + int n = maxRetries c + 1
    \<Longrightarrow> attempt_loop c tr meth endpoint bdy a le w =
     (Inl (exhausted c (if n = 0 then le
                        else raised (attempt_body (tr (length (calls w) + (n - 1)) req)))),
      w\<lparr>calls := calls w @ replicate n req,
        sleeps := sleeps w @ map backoff [nat a..<nat a + (n - 1)]\<rparr>)"
proof (induction n arbitrary: a le w)
  case 0
  then show ?case by (simp add: loop_step_done)
next
  case (Suc n)
  from Suc.prems(1)[of 0] have r0: "retried (attempt_body (tr (length (calls w)) req))" by simp
  from Suc.prems have a: "a \<le> maxRetries c" by auto
  from loop_step_retried[OF req, of a tr w le] a r0 obtain e where
    b: "attempt_body (tr (length (calls w)) req) = Inl e" and
    e: "attempt_loop c tr meth endpoint bdy a le w = attempt_loop c tr meth endpoint bdy (a + 1) (Some e)
          (if a < maxRetries c
           then w\<lparr>calls := calls w @ [req], sleeps := sleeps w @ [min (1000 * 2 ^ nat a) 10000]\<rparr>
           else w\<lparr>calls := calls w @ [req]\<rparr>)" by auto
  show ?case
  proof (cases n)
    case 0
    with Suc.prems have "\<not> a + 1 \<le> maxRetries c" "\<not> a < maxRetries c" by auto
    then show ?thesis
      unfolding e using 0 b by (simp add: loop_step_done raised_def)
  next
    case (Suc m)
    with Suc.prems have lt: "a < maxRetries c" by auto
    let ?w = "w\<lparr>calls := calls w @ [req], sleeps := sleeps w @ [min (1000 * 2 ^ nat a) 10000]\<rparr>"
    have "attempt_loop c tr meth endpoint bdy (a + 1) (Some e) ?w =
       (Inl (exhausted c (if n = 0 then Some e
                          else raised (attempt_body (tr (length (calls ?w) + (n - 1)) req)))),
        ?w\<lparr>calls := calls ?w @ replicate n req,
          sleeps := sleeps ?w @ map backoff [nat (a + 1)..<nat (a + 1) + (n - 1)]\<rparr>)"
    proof (rule Suc.IH)
      fix j assume "j < n"
      then show "retried (attempt_body (tr (length (calls ?w) + j) req))"
        using Suc.prems(1)[of "Suc j"] by simp
    qed (use Suc.prems in auto)
    moreover have "nat (a + 1) = Suc (nat a)" using Suc.prems(2) by simp
    moreover have "[nat a..<nat a + n] = nat a # [Suc (nat a)..<Suc (nat a) + (n - 1)]"
      using Suc by (simp add: upt_rec)
    ultimately show ?thesis
      unfolding e using lt Suc by (simp add: backoff_def replicate_append_same)
  qed
qed

subsection \<open>Construction\<close>

lemma startsWith_iff: "startsWith s p \<longleftrightarrow> (\<exists>r. s = p @ r)"
  unfolding startsWith_def
  by (metis append_eq_conv_conj append_take_drop_id)

text \<open>
  C6. Construction with an API key that is missing or does not begin with the literal
  \<open>brainus_\<close> yields the construction error; construction with a key that begins with
  \<open>brainus_\<close> and no other field yields a client with base URL
  \<open>https://api.brainus.lk\<close>, timeout 30000 ms and 3 retries. In both cases no request is
  issued and no wait is made: the world is returned as it was.
\<close>

theorem constructor_validates_key:
  "((cfg_apiKey config = None \<or> (\<exists>k. cfg_apiKey config = Some k \<and> \<not> (\<exists>r. k = ''brainus_'' @ r)))
      \<longrightarrow> constructor config w = (Inl invalid_key, w))
   \<and> ((\<exists>r. k = ''brainus_'' @ r) \<longrightarrow>
        constructor \<lparr> cfg_apiKey = Some k, cfg_baseUrl = None, cfg_timeout = None,
                      cfg_maxRetries = None \<rparr> w
        = (Inr \<lparr> apiKey = k, baseUrl = ''https://api.brainus.lk'', timeout = 30000,
                 maxRetries = 3 \<rparr>, w))"
  by (auto simp: constructor_def startsWith_iff nullish_def split: option.splits)

theorem constructor_validates_key_witness:
  "constructor \<lparr> cfg_apiKey = Some ''sk_live_1'', cfg_baseUrl = None, cfg_timeout = None,
                  cfg_maxRetries = None \<rparr> \<lparr> calls = [], sleeps = [] \<rparr>
     = (Inl invalid_key, \<lparr> calls = [], sleeps = [] \<rparr>)
   \<and> constructor \<lparr> cfg_apiKey = None, cfg_baseUrl = None, cfg_timeout = None,
                  cfg_maxRetries = None \<rparr> \<lparr> calls = [], sleeps = [] \<rparr>
     = (Inl invalid_key, \<lparr> calls = [], sleeps = [] \<rparr>)
   \<and> constructor \<lparr> cfg_apiKey = Some ''brainus_1'', cfg_baseUrl = None, cfg_timeout = None,
                    cfg_maxRetries = None \<rparr> \<lparr> calls = [], sleeps = [] \<rparr>
     = (Inr \<lparr> apiKey = ''brainus_1'', baseUrl = ''https://api.brainus.lk'', timeout = 30000,
              maxRetries = 3 \<rparr>, \<lparr> calls = [], sleeps = [] \<rparr>)"
  using constructor_validates_key [of "\<lparr> cfg_apiKey = Some ''sk_live_1'', cfg_baseUrl = None,
          cfg_timeout = None, cfg_maxRetries = None \<rparr>" "\<lparr> calls = [], sleeps = [] \<rparr>" "''brainus_1''"]
        constructor_validates_key [of "\<lparr> cfg_apiKey = None, cfg_baseUrl = None,
          cfg_timeout = None, cfg_maxRetries = None \<rparr>" "\<lparr> calls = [], sleeps = [] \<rparr>" "''brainus_1''"]
  by simp

subsection \<open>Exhausted retries\<close>

lemma attempt_body_Rejects: "attempt_body (Rejects name msg) = Inl (JsError name msg)"
  by (simp add: attempt_body_def)

lemma attempt_body_server_error:
  assumes "500 \<le> status r"
  shows "attempt_body (Resolves r) = Inl (APIError (js_to_string (errorMessage_of r)) (Some (status r)))"
  using assms by (simp add: attempt_body_def ok_def handleErrorResponse_def Let_def)

lemma retryable_retried:
  assumes "case out of Rejects name msg \<Rightarrow> True | Resolves r \<Rightarrow> 500 \<le> status r"
  shows "retried (attempt_body out)"
    and "raised (attempt_body out) =
           Some (case out of Rejects name msg \<Rightarrow> JsError name msg
                 | Resolves r \<Rightarrow> APIError (js_to_string (errorMessage_of r)) (Some (status r)))"
  using assms
  by (auto simp: retried_def raised_def attempt_body_Rejects attempt_body_server_error
           split: fetch_outcome.splits)

text \<open>
  C1. Let the timeout be one that \<open>AbortSignal.timeout\<close> accepts (from 0 to
  \<open>2 ^ 32 - 1\<close>), let the retry count be non-negative and let every call of the transport fail
  retryably: \<open>fetch\<close> rejects (network failure, timeout) or resolves with a status of
  500 or more. Then \<open>makeRequest\<close> issues exactly \<open>maxRetries + 1\<close> requests and throws
  the generic \<open>APIError\<close> without status code whose message is
  \<open>Request failed after <maxRetries + 1> attempts: <message of the last error>\<close>,
  the last error being that of the last request: the rejection's message, or the
  message extracted from the last 5xx response.
\<close>

theorem makeRequest_exhausts_retries:
  assumes valid: "0 \<le> timeout c" "timeout c \<le> 4294967295"
    and nonneg: "0 \<le> maxRetries c"
    and fails: "\<And>n rq. case tr n rq of Rejects name msg \<Rightarrow> True | Resolves r \<Rightarrow> 500 \<le> status r"
  shows "makeRequest c tr meth endpoint bdy w =
     (Inl (APIError (''Request failed after '' @ int_to_string (maxRetries c + 1) @ '' attempts: ''
             @ (case tr (length (calls w) + nat (maxRetries c)) (request_of c meth endpoint bdy) of
                  Rejects name msg \<Rightarrow> msg
                | Resolves r \<Rightarrow> js_to_string (errorMessage_of r))) None),
      w\<lparr>calls := calls w @ replicate (nat (maxRetries c) + 1) (request_of c meth endpoint bdy),
        sleeps := sleeps w @ map (\<lambda>k. min (1000 * 2 ^ k) 10000) [0..<nat (maxRetries c)]\<rparr>)"
proof -
  let ?req = "request_of c meth endpoint bdy"
  let ?n = "nat (maxRetries c) + 1"
  have all: "\<And>j. j < ?n \<Longrightarrow> retried (attempt_body (tr (length (calls w) + j) ?req))"
    using fails by (rule retryable_retried(1))
  have last: "raised (attempt_body (tr (length (calls w) + (?n - 1)) ?req)) =
      Some (case tr (length (calls w) + (?n - 1)) ?req of Rejects name msg \<Rightarrow> JsError name msg
            | Resolves r \<Rightarrow> APIError (js_to_string (errorMessage_of r)) (Some (status r)))"
    using fails by (rule retryable_retried(2))
  have "attempt_loop c tr meth endpoint bdy 0 None w =
     (Inl (exhausted c (if ?n = 0 then None
                        else raised (attempt_body (tr (length (calls w) + (?n - 1)) ?req)))),
      w\<lparr>calls := calls w @ replicate ?n ?req,
        sleeps := sleeps w @ map backoff [nat 0..<nat 0 + (?n - 1)]\<rparr>)"
    by (rule loop_exhausts[OF build_request_valid[OF valid]]) (use nonneg all in auto)
  then show ?thesis
    unfolding makeRequest_def last
    by (simp add: exhausted_def backoff_def split: fetch_outcome.splits)
qed

theorem makeRequest_exhausts_retries_witness:
  "makeRequest \<lparr> apiKey = ''brainus_k'', baseUrl = ''https://api.brainus.lk'', timeout = 30000,
                 maxRetries = 2 \<rparr>
     (\<lambda>n rq. Resolves \<lparr> status = 503, statusText = ''Service Unavailable'', retry_after = None,
                         json_result = Inr (JObj [(''detail'', JStr ''overloaded'')]) \<rparr>)
     ''GET'' ''/api/v1/dev/usage'' None \<lparr> calls = [], sleeps = [] \<rparr>
   = (Inl (APIError ''Request failed after 3 attempts: overloaded'' None),
      \<lparr> calls = replicate 3 \<lparr> url = ''https://api.brainus.lk/api/v1/dev/usage'', http_method = ''GET'',
             headers = [(''X-API-Key'', ''brainus_k''), (''Content-Type'', ''application/json''),
                        (''User-Agent'', ''@brainus/ai/0.1.0'')],
             body = None, signal_timeout = 30000 \<rparr>,
        sleeps = [1000, 2000] \<rparr>)"
  using makeRequest_exhausts_retries [of
      "\<lparr> apiKey = ''brainus_k'', baseUrl = ''https://api.brainus.lk'', timeout = 30000, maxRetries = 2 \<rparr>"
      "\<lambda>n rq. Resolves \<lparr> status = 503, statusText = ''Service Unavailable'', retry_after = None,
                         json_result = Inr (JObj [(''detail'', JStr ''overloaded'')]) \<rparr>"
      "''GET''" "''/api/v1/dev/usage''" None "\<lparr> calls = [], sleeps = [] \<rparr>"]
  by (simp add: request_of_def int_to_string_def nat_to_string.simps digit_char_def
        errorMessage_of_def or_else_def upt_rec)

subsection \<open>Errors that are not retried\<close>

lemma attempt_body_401:
  assumes "status r = 401"
  shows "attempt_body (Resolves r) = Inl (AuthenticationError (js_to_string (errorMessage_of r)))"
  using assms by (simp add: attempt_body_def ok_def handleErrorResponse_def Let_def)

lemma makeRequest_settles:
  assumes valid: "0 \<le> timeout c" "timeout c \<le> 4294967295"
    and "\<And>j. j < n \<Longrightarrow> retried (attempt_body (tr (length (calls w) + j) (request_of c meth endpoint bdy)))"
    and "\<not> retried (attempt_body (tr (length (calls w) + n) (request_of c meth endpoint bdy)))"
    and "int n \<le> maxRetries c"
  shows "makeRequest c tr meth endpoint bdy w =
     (attempt_body (tr (length (calls w) + n) (request_of c meth endpoint bdy)),
      w\<lparr>calls := calls w @ replicate (Suc n) (request_of c meth endpoint bdy),
        sleeps := sleeps w @ map backoff [0..<n]\<rparr>)"
  unfolding makeRequest_def
  using loop_settles [OF build_request_valid[OF valid], where n = n and tr = tr and w = w and a = 0 and le = None] assms
  by simp

text \<open>
  C2. Let the timeout be one that \<open>AbortSignal.timeout\<close> accepts (from 0 to
  \<open>2 ^ 32 - 1\<close>), so that every attempt issues a request. Let attempt \<open>k\<close> of
  \<open>makeRequest\<close> be reached (the \<open>k\<close> attempts before it were
  retried, and \<open>k \<le> maxRetries\<close>) and let it throw an \<open>AuthenticationError\<close>, a
  \<open>QuotaExceededError\<close>, or an \<open>APIError\<close> with a status code from 1 to 499 (a status
  code is a positive number; the test \<open>error.statusCode && \<dots>\<close> of the source takes 0
  for an absent one). Then \<open>makeRequest\<close> throws this very error and attempt \<open>k\<close> was
  the last request: \<open>k + 1\<close> requests in all. In particular, when the transport
  answers the first request of \<open>query\<close> with status 401, \<open>query\<close> throws an
  \<open>AuthenticationError\<close> after exactly one request and without any wait.
\<close>

theorem client_errors_not_retried:
  "(0 \<le> timeout c \<and> timeout c \<le> 4294967295
      \<and> int k \<le> maxRetries c
      \<and> (\<forall>j<k. retried (attempt_body (tr (length (calls w) + j) (request_of c meth endpoint bdy))))
      \<and> attempt_body (tr (length (calls w) + k) (request_of c meth endpoint bdy)) = Inl e
      \<and> ((\<exists>m. e = AuthenticationError m) \<or> (\<exists>m. e = QuotaExceededError m)
           \<or> (\<exists>m sc. e = APIError m (Some sc) \<and> 0 < sc \<and> sc < 500))
    \<longrightarrow> fst (makeRequest c tr meth endpoint bdy w) = Inl e
        \<and> calls (snd (makeRequest c tr meth endpoint bdy w))
            = calls w @ replicate (k + 1) (request_of c meth endpoint bdy))
   \<and> (0 \<le> timeout c \<and> timeout c \<le> 4294967295
      \<and> 0 \<le> maxRetries c
      \<and> tr (length (calls w))
            (request_of c ''POST'' ''/api/v1/dev/query'' (Some (JObj (query_body request))))
          = Resolves r
      \<and> status r = 401
    \<longrightarrow> query c tr request w =
          (Inl (AuthenticationError (js_to_string (errorMessage_of r))),
           w\<lparr>calls := calls w @
                [request_of c ''POST'' ''/api/v1/dev/query'' (Some (JObj (query_body request)))]\<rparr>))"
proof (intro conjI impI)
  let ?req = "request_of c meth endpoint bdy"
  assume h: "0 \<le> timeout c \<and> timeout c \<le> 4294967295
      \<and> int k \<le> maxRetries c
      \<and> (\<forall>j<k. retried (attempt_body (tr (length (calls w) + j) ?req)))
      \<and> attempt_body (tr (length (calls w) + k) ?req) = Inl e
      \<and> ((\<exists>m. e = AuthenticationError m) \<or> (\<exists>m. e = QuotaExceededError m)
           \<or> (\<exists>m sc. e = APIError m (Some sc) \<and> 0 < sc \<and> sc < 500))"
  then have "rethrown e" by auto
  with h have "\<not> retried (attempt_body (tr (length (calls w) + k) ?req))"
    by (simp add: retried_def)
  with h have m: "makeRequest c tr meth endpoint bdy w =
     (attempt_body (tr (length (calls w) + k) ?req),
      w\<lparr>calls := calls w @ replicate (Suc k) ?req, sleeps := sleeps w @ map backoff [0..<k]\<rparr>)"
    by (intro makeRequest_settles) auto
  show "fst (makeRequest c tr meth endpoint bdy w) = Inl e"
    unfolding m using h by simp
  show "calls (snd (makeRequest c tr meth endpoint bdy w)) = calls w @ replicate (k + 1) ?req"
    unfolding m by simp
next
  let ?req = "request_of c ''POST'' ''/api/v1/dev/query'' (Some (JObj (query_body request)))"
  assume h: "0 \<le> timeout c \<and> timeout c \<le> 4294967295
      \<and> 0 \<le> maxRetries c \<and> tr (length (calls w)) ?req = Resolves r \<and> status r = 401"
  then have b: "attempt_body (tr (length (calls w)) ?req)
      = Inl (AuthenticationError (js_to_string (errorMessage_of r)))"
    by (simp add: attempt_body_401)
  then have "\<not> retried (attempt_body (tr (length (calls w) + 0) ?req))"
    by (simp add: retried_def)
  then have "makeRequest c tr ''POST'' ''/api/v1/dev/query'' (Some (JObj (query_body request))) w =
     (attempt_body (tr (length (calls w) + 0) ?req),
      w\<lparr>calls := calls w @ replicate (Suc 0) ?req, sleeps := sleeps w @ map backoff [0..<0]\<rparr>)"
    by (intro makeRequest_settles) (use h in auto)
  then show "query c tr request w =
          (Inl (AuthenticationError (js_to_string (errorMessage_of r))), w\<lparr>calls := calls w @ [?req]\<rparr>)"
    using b by (simp add: query_def)
qed


theorem client_errors_not_retried_witness:
  "fst (makeRequest default_client
          (\<lambda>n rq. if n = 0 then Rejects ''TypeError'' ''fetch failed''
                   else Resolves \<lparr> status = 404, statusText = ''Not Found'', retry_after = None,
                                   json_result = Inr (JObj [(''detail'', JStr ''No such route'')]) \<rparr>)
          ''GET'' ''/api/v1/dev/usage'' None new_world)
     = Inl (APIError ''No such route'' (Some 404))
   \<and> length (calls (snd (makeRequest default_client
          (\<lambda>n rq. if n = 0 then Rejects ''TypeError'' ''fetch failed''
                   else Resolves \<lparr> status = 404, statusText = ''Not Found'', retry_after = None,
                                   json_result = Inr (JObj [(''detail'', JStr ''No such route'')]) \<rparr>)
          ''GET'' ''/api/v1/dev/usage'' None new_world))) = 2
   \<and> query default_client
          (\<lambda>n rq. Resolves \<lparr> status = 401, statusText = ''Unauthorized'', retry_after = None,
                              json_result = Inr (JObj [(''detail'', JStr ''Invalid API key'')]) \<rparr>)
          \<lparr> rq_query = ''What is Python?'', rq_storeId = None, rq_filters = None, rq_model = None \<rparr>
          new_world
     = (Inl (AuthenticationError ''Invalid API key''),
        \<lparr> calls = [\<lparr> url = ''https://api.brainus.lk/api/v1/dev/query'', http_method = ''POST'',
                      headers = [(''X-API-Key'', ''brainus_test''), (''Content-Type'', ''application/json''),
                                 (''User-Agent'', ''@brainus/ai/0.1.0'')],
                      body = Some (JObj [(''query'', JStr ''What is Python?'')]),
                      signal_timeout = 30000 \<rparr>],
           sleeps = [] \<rparr>)"
proof -
  let ?tr = "\<lambda>(n::nat) (rq::request). if n = 0 then Rejects ''TypeError'' ''fetch failed''
                   else Resolves \<lparr> status = 404, statusText = ''Not Found'', retry_after = None,
                                   json_result = Inr (JObj [(''detail'', JStr ''No such route'')]) \<rparr>"
  let ?r = "\<lparr> status = 401, statusText = ''Unauthorized'', retry_after = None,
                              json_result = Inr (JObj [(''detail'', JStr ''Invalid API key'')]) \<rparr>"
  let ?rq = "\<lparr> rq_query = ''What is Python?'', rq_storeId = None, rq_filters = None, rq_model = None \<rparr>"
  note t1 = client_errors_not_retried [where k = 1 and c = default_client and tr = ?tr
      and w = new_world and meth = "''GET''" and endpoint = "''/api/v1/dev/usage''" and bdy = None
      and e = "APIError ''No such route'' (Some 404)"]
  note t2 = client_errors_not_retried [where k = 0 and c = default_client
      and tr = "\<lambda>n rq. Resolves ?r" and w = new_world and request = ?rq and r = ?r]
  have b0: "attempt_body (Rejects ''TypeError'' ''fetch failed'') = Inl (JsError ''TypeError'' ''fetch failed'')"
    by (simp add: attempt_body_def)
  have b1: "attempt_body (Resolves \<lparr> status = 404, statusText = ''Not Found'', retry_after = None,
                 json_result = Inr (JObj [(''detail'', JStr ''No such route'')]) \<rparr>)
             = Inl (APIError ''No such route'' (Some 404))"
    by (simp add: attempt_body_def ok_def handleErrorResponse_def errorMessage_of_def or_else_def)
  have m: "js_to_string (errorMessage_of ?r) = ''Invalid API key''"
    by (simp add: errorMessage_of_def or_else_def)
  show ?thesis
    using t1 t2
    by (simp add: b0 b1 m retried_def default_client_def new_world_def request_of_def query_body_def)
qed

subsection \<open>Backoff\<close>

lemma makeRequest_all_retried:
  assumes valid: "0 \<le> timeout c" "timeout c \<le> 4294967295"
    and "\<And>j. j < nat (maxRetries c) + 1 \<Longrightarrow>
             retried (attempt_body (tr (length (calls w) + j) (request_of c meth endpoint bdy)))"
    and "0 \<le> maxRetries c"
  shows "makeRequest c tr meth endpoint bdy w =
     (Inl (exhausted c (raised (attempt_body
             (tr (length (calls w) + nat (maxRetries c)) (request_of c meth endpoint bdy))))),
      w\<lparr>calls := calls w @ replicate (nat (maxRetries c) + 1) (request_of c meth endpoint bdy),
        sleeps := sleeps w @ map backoff [0..<nat (maxRetries c)]\<rparr>)"
  unfolding makeRequest_def
  using loop_exhausts [OF build_request_valid[OF valid], where n = "nat (maxRetries c) + 1"
      and tr = tr and w = w and a = 0 and le = None] assms
  by simp

lemma attempt_body_success:
  assumes "ok r" "json_result r = Inr v"
  shows "attempt_body (Resolves r) = Inr v"
  using assms by (simp add: attempt_body_def)

text \<open>
  C4. Let the timeout be one that \<open>AbortSignal.timeout\<close> accepts (from 0 to
  \<open>2 ^ 32 - 1\<close>), so that every attempt issues a request. The wait after attempt \<open>k\<close> (counted from 0), made only when another attempt
  follows, is \<open>min (1000 * 2 ^ k) 10000\<close> milliseconds. When the first \<open>N \<le> maxRetries\<close>
  attempts are retried and attempt \<open>N\<close> is not (it succeeds, or throws an error that is
  re-thrown), \<open>makeRequest\<close> has issued \<open>N + 1\<close> requests and waited
  \<open>min (1000 * 2 ^ k) 10000\<close> for \<open>k = 0, \<dots>, N - 1\<close>, in this order. When all
  \<open>maxRetries + 1\<close> attempts are retried, the waits are those for
  \<open>k = 0, \<dots>, maxRetries - 1\<close>: none after the last attempt. In particular, when the
  transport rejects the first \<open>N \<le> maxRetries\<close> requests and answers the next one with
  a 2xx response with a JSON body, \<open>makeRequest\<close> returns that body after \<open>N + 1\<close>
  requests and those \<open>N\<close> waits.
\<close>

theorem backoff_between_attempts:
  "(0 \<le> timeout c \<and> timeout c \<le> 4294967295
      \<and> int N \<le> maxRetries c
      \<and> (\<forall>j<N. retried (attempt_body (tr (length (calls w) + j) (request_of c meth endpoint bdy))))
      \<and> \<not> retried (attempt_body (tr (length (calls w) + N) (request_of c meth endpoint bdy)))
    \<longrightarrow> snd (makeRequest c tr meth endpoint bdy w) =
          w\<lparr>calls := calls w @ replicate (N + 1) (request_of c meth endpoint bdy),
            sleeps := sleeps w @ map (\<lambda>k. min (1000 * 2 ^ k) 10000) [0..<N]\<rparr>)
   \<and> (0 \<le> timeout c \<and> timeout c \<le> 4294967295
      \<and> 0 \<le> maxRetries c
      \<and> (\<forall>j \<le> nat (maxRetries c).
             retried (attempt_body (tr (length (calls w) + j) (request_of c meth endpoint bdy))))
    \<longrightarrow> snd (makeRequest c tr meth endpoint bdy w) =
          w\<lparr>calls := calls w @ replicate (nat (maxRetries c) + 1) (request_of c meth endpoint bdy),
            sleeps := sleeps w @ map (\<lambda>k. min (1000 * 2 ^ k) 10000) [0..<nat (maxRetries c)]\<rparr>)
   \<and> (0 \<le> timeout c \<and> timeout c \<le> 4294967295
      \<and> int N \<le> maxRetries c
      \<and> (\<forall>j<N. \<exists>name msg.
             tr (length (calls w) + j) (request_of c meth endpoint bdy) = Rejects name msg)
      \<and> tr (length (calls w) + N) (request_of c meth endpoint bdy) = Resolves r
      \<and> ok r \<and> json_result r = Inr v
    \<longrightarrow> makeRequest c tr meth endpoint bdy w =
          (Inr v,
           w\<lparr>calls := calls w @ replicate (N + 1) (request_of c meth endpoint bdy),
             sleeps := sleeps w @ map (\<lambda>k. min (1000 * 2 ^ k) 10000) [0..<N]\<rparr>))"
proof (intro conjI impI)
  let ?req = "request_of c meth endpoint bdy"
  assume h: "0 \<le> timeout c \<and> timeout c \<le> 4294967295
      \<and> int N \<le> maxRetries c
      \<and> (\<forall>j<N. retried (attempt_body (tr (length (calls w) + j) ?req)))
      \<and> \<not> retried (attempt_body (tr (length (calls w) + N) ?req))"
  then have "makeRequest c tr meth endpoint bdy w =
     (attempt_body (tr (length (calls w) + N) ?req),
      w\<lparr>calls := calls w @ replicate (Suc N) ?req, sleeps := sleeps w @ map backoff [0..<N]\<rparr>)"
    by (intro makeRequest_settles) auto
  then show "snd (makeRequest c tr meth endpoint bdy w) =
          w\<lparr>calls := calls w @ replicate (N + 1) ?req,
            sleeps := sleeps w @ map (\<lambda>k. min (1000 * 2 ^ k) 10000) [0..<N]\<rparr>"
    by (simp add: backoff_def)
next
  let ?req = "request_of c meth endpoint bdy"
  assume h: "0 \<le> timeout c \<and> timeout c \<le> 4294967295
      \<and> 0 \<le> maxRetries c
      \<and> (\<forall>j \<le> nat (maxRetries c). retried (attempt_body (tr (length (calls w) + j) ?req)))"
  then have "makeRequest c tr meth endpoint bdy w =
     (Inl (exhausted c (raised (attempt_body (tr (length (calls w) + nat (maxRetries c)) ?req)))),
      w\<lparr>calls := calls w @ replicate (nat (maxRetries c) + 1) ?req,
        sleeps := sleeps w @ map backoff [0..<nat (maxRetries c)]\<rparr>)"
    by (intro makeRequest_all_retried) auto
  then show "snd (makeRequest c tr meth endpoint bdy w) =
          w\<lparr>calls := calls w @ replicate (nat (maxRetries c) + 1) ?req,
            sleeps := sleeps w @ map (\<lambda>k. min (1000 * 2 ^ k) 10000) [0..<nat (maxRetries c)]\<rparr>"
    by (simp add: backoff_def)
next
  let ?req = "request_of c meth endpoint bdy"
  assume h: "0 \<le> timeout c \<and> timeout c \<le> 4294967295
      \<and> int N \<le> maxRetries c
      \<and> (\<forall>j<N. \<exists>name msg. tr (length (calls w) + j) ?req = Rejects name msg)
      \<and> tr (length (calls w) + N) ?req = Resolves r
      \<and> ok r \<and> json_result r = Inr v"
  then have s: "attempt_body (tr (length (calls w) + N) ?req) = Inr v"
    by (simp add: attempt_body_success)
  have "\<And>j. j < N \<Longrightarrow> retried (attempt_body (tr (length (calls w) + j) ?req))"
    using h by (auto simp: attempt_body_Rejects retried_def)
  moreover have "\<not> retried (attempt_body (tr (length (calls w) + N) ?req))"
    unfolding s by (simp add: retried_def)
  ultimately have "makeRequest c tr meth endpoint bdy w =
     (attempt_body (tr (length (calls w) + N) ?req),
      w\<lparr>calls := calls w @ replicate (Suc N) ?req, sleeps := sleeps w @ map backoff [0..<N]\<rparr>)"
    using h by (intro makeRequest_settles) auto
  then show "makeRequest c tr meth endpoint bdy w =
          (Inr v,
           w\<lparr>calls := calls w @ replicate (N + 1) ?req,
             sleeps := sleeps w @ map (\<lambda>k. min (1000 * 2 ^ k) 10000) [0..<N]\<rparr>)"
    unfolding s by (simp add: backoff_def)
qed


theorem backoff_between_attempts_witness:
  "makeRequest (default_client\<lparr>maxRetries := 5\<rparr>)
      (\<lambda>n rq. if n < 5 then Rejects ''TypeError'' ''fetch failed''
               else Resolves \<lparr> status = 200, statusText = ''OK'', retry_after = None,
                               json_result = Inr (JObj [(''plans'', JArr [])]) \<rparr>)
      ''GET'' ''/api/v1/dev/plans'' None new_world
     = (Inr (JObj [(''plans'', JArr [])]),
        \<lparr> calls = replicate 6 (request_of (default_client\<lparr>maxRetries := 5\<rparr>)
                                  ''GET'' ''/api/v1/dev/plans'' None),
           sleeps = [1000, 2000, 4000, 8000, 10000] \<rparr>)
   \<and> snd (makeRequest default_client (\<lambda>n rq. Rejects ''TypeError'' ''fetch failed'')
             ''GET'' ''/api/v1/dev/plans'' None new_world)
     = \<lparr> calls = replicate 4 (request_of default_client ''GET'' ''/api/v1/dev/plans'' None),
          sleeps = [1000, 2000, 4000] \<rparr>"
proof -
  let ?r = "\<lparr> status = 200, statusText = ''OK'', retry_after = None,
                               json_result = Inr (JObj [(''plans'', JArr [])]) \<rparr>"
  note t1 = backoff_between_attempts [where N = 5 and c = "default_client\<lparr>maxRetries := 5\<rparr>"
      and tr = "\<lambda>n rq. if n < 5 then Rejects ''TypeError'' ''fetch failed'' else Resolves ?r"
      and w = new_world and meth = "''GET''" and endpoint = "''/api/v1/dev/plans''" and bdy = None
      and r = ?r and v = "JObj [(''plans'', JArr [])]"]
  note t2 = backoff_between_attempts [where N = 0 and c = default_client
      and tr = "\<lambda>n rq. Rejects ''TypeError'' ''fetch failed''"
      and w = new_world and meth = "''GET''" and endpoint = "''/api/v1/dev/plans''" and bdy = None]
  have u5: "[0..<5] = [0, 1, 2, 3, 4]" and u3: "[0..<3] = [0, 1, 2]"
    by (simp_all add: upt_rec)
  have p: "(2::int) ^ 4 = 16" "(2::int) ^ 3 = 8" "(2::int) ^ 2 = 4" by simp_all
  from t1 have a: "makeRequest (default_client\<lparr>maxRetries := 5\<rparr>)
      (\<lambda>n rq. if n < 5 then Rejects ''TypeError'' ''fetch failed'' else Resolves ?r)
      ''GET'' ''/api/v1/dev/plans'' None new_world
     = (Inr (JObj [(''plans'', JArr [])]),
        \<lparr> calls = replicate 6 (request_of (default_client\<lparr>maxRetries := 5\<rparr>)
                                  ''GET'' ''/api/v1/dev/plans'' None),
           sleeps = [1000, 2000, 4000, 8000, 10000] \<rparr>)"
    by (simp add: ok_def new_world_def default_client_def u5 p)
  from t2 have b: "snd (makeRequest default_client (\<lambda>n rq. Rejects ''TypeError'' ''fetch failed'')
             ''GET'' ''/api/v1/dev/plans'' None new_world)
     = \<lparr> calls = replicate 4 (request_of default_client ''GET'' ''/api/v1/dev/plans'' None),
          sleeps = [1000, 2000, 4000] \<rparr>"
    by (simp add: attempt_body_Rejects retried_def new_world_def default_client_def u3 p)
  from a b show ?thesis by simp
qed

subsection \<open>A success response without a JSON body\<close>

text \<open>
  C10. When a 2xx response has a body that \<open>response.json()\<close> cannot parse, the attempt
  throws the parse error, which the \<open>catch\<close> block does not re-throw: the attempt is
  retried. When every request is answered so (the retry count being non-negative and the
  timeout one that \<open>AbortSignal.timeout\<close> accepts, from 0 to \<open>2 ^ 32 - 1\<close>),
  \<open>makeRequest\<close> issues \<open>maxRetries + 1\<close> requests, waits between them, and throws the
  generic \<open>APIError\<close> without status code whose message ends with the message of the
  last parse error; the parse error itself is not what the caller gets.
\<close>

theorem unparsable_body_is_retried:
  "(ok r \<and> json_result r = Inl (name, msg)
    \<longrightarrow> attempt_body (Resolves r) = Inl (JsError name msg)
        \<and> \<not> rethrown (JsError name msg))
   \<and> (0 \<le> timeout c \<and> timeout c \<le> 4294967295
      \<and> 0 \<le> maxRetries c
      \<and> (\<forall>n rq. \<exists>r' name' msg'. tr n rq = Resolves r' \<and> ok r' \<and> json_result r' = Inl (name', msg'))
    \<longrightarrow> (\<exists>r' name' msg'.
           tr (length (calls w) + nat (maxRetries c)) (request_of c meth endpoint bdy) = Resolves r'
         \<and> json_result r' = Inl (name', msg')
         \<and> makeRequest c tr meth endpoint bdy w =
             (Inl (APIError (''Request failed after '' @ int_to_string (maxRetries c + 1)
                             @ '' attempts: '' @ msg') None),
              w\<lparr>calls := calls w @ replicate (nat (maxRetries c) + 1) (request_of c meth endpoint bdy),
                sleeps := sleeps w @ map (\<lambda>k. min (1000 * 2 ^ k) 10000) [0..<nat (maxRetries c)]\<rparr>)))"
proof (intro conjI impI)
  assume "ok r \<and> json_result r = Inl (name, msg)"
  then show "attempt_body (Resolves r) = Inl (JsError name msg)"
    by (simp add: attempt_body_def)
next
  show "\<not> rethrown (JsError name msg)" by simp
next
  let ?req = "request_of c meth endpoint bdy"
  assume h: "0 \<le> timeout c \<and> timeout c \<le> 4294967295
      \<and> 0 \<le> maxRetries c
      \<and> (\<forall>n rq. \<exists>r' name' msg'. tr n rq = Resolves r' \<and> ok r' \<and> json_result r' = Inl (name', msg'))"
  have all: "retried (attempt_body (tr n rq))" for n rq
  proof -
    from h obtain r' name' msg' where
      "tr n rq = Resolves r'" "ok r'" "json_result r' = Inl (name', msg')" by blast
    then show ?thesis by (simp add: attempt_body_def retried_def)
  qed
  from h obtain r' name' msg' where
    l: "tr (length (calls w) + nat (maxRetries c)) ?req = Resolves r'" "ok r'"
       "json_result r' = Inl (name', msg')" by blast
  then have e: "raised (attempt_body (tr (length (calls w) + nat (maxRetries c)) ?req))
      = Some (JsError name' msg')"
    by (simp add: attempt_body_def raised_def)
  have "makeRequest c tr meth endpoint bdy w =
     (Inl (exhausted c (raised (attempt_body (tr (length (calls w) + nat (maxRetries c)) ?req)))),
      w\<lparr>calls := calls w @ replicate (nat (maxRetries c) + 1) ?req,
        sleeps := sleeps w @ map backoff [0..<nat (maxRetries c)]\<rparr>)"
    by (intro makeRequest_all_retried) (use h all in auto)
  then have "makeRequest c tr meth endpoint bdy w =
             (Inl (APIError (''Request failed after '' @ int_to_string (maxRetries c + 1)
                             @ '' attempts: '' @ msg') None),
              w\<lparr>calls := calls w @ replicate (nat (maxRetries c) + 1) ?req,
                sleeps := sleeps w @ map (\<lambda>k. min (1000 * 2 ^ k) 10000) [0..<nat (maxRetries c)]\<rparr>)"
    unfolding e by (simp add: exhausted_def backoff_def)
  with l show "\<exists>r' name' msg'.
           tr (length (calls w) + nat (maxRetries c)) ?req = Resolves r'
         \<and> json_result r' = Inl (name', msg')
         \<and> makeRequest c tr meth endpoint bdy w =
             (Inl (APIError (''Request failed after '' @ int_to_string (maxRetries c + 1)
                             @ '' attempts: '' @ msg') None),
              w\<lparr>calls := calls w @ replicate (nat (maxRetries c) + 1) ?req,
                sleeps := sleeps w @ map (\<lambda>k. min (1000 * 2 ^ k) 10000) [0..<nat (maxRetries c)]\<rparr>)"
    by blast
qed

theorem unparsable_body_is_retried_witness:
  "makeRequest default_client
      (\<lambda>n rq. Resolves \<lparr> status = 200, statusText = ''OK'', retry_after = None,
                          json_result = Inl (''SyntaxError'', ''Unexpected end of JSON input'') \<rparr>)
      ''GET'' ''/api/v1/dev/usage'' None new_world
   = (Inl (APIError ''Request failed after 4 attempts: Unexpected end of JSON input'' None),
      \<lparr> calls = replicate 4 (request_of default_client ''GET'' ''/api/v1/dev/usage'' None),
         sleeps = [1000, 2000, 4000] \<rparr>)"
proof -
  let ?r = "\<lparr> status = 200, statusText = ''OK'', retry_after = None,
              json_result = Inl (''SyntaxError'', ''Unexpected end of JSON input'') \<rparr>"
  note t = unparsable_body_is_retried [where c = default_client and tr = "\<lambda>n rq. Resolves ?r"
      and w = new_world and meth = "''GET''" and endpoint = "''/api/v1/dev/usage''" and bdy = None]
  have u3: "[0..<3] = [0, 1, 2]" by (simp add: upt_rec)
  have i: "int_to_string 4 = ''4''"
    by (simp add: int_to_string_def nat_to_string.simps digit_char_def)
  from t show ?thesis
    by (simp add: ok_def default_client_def new_world_def u3 i)
qed

subsection \<open>Rate limits\<close>

lemma attempt_body_429:
  assumes "status r = 429"
  shows "attempt_body (Resolves r) =
           Inl (RateLimitError (js_to_string (errorMessage_of r))
                  (case retry_after r of None \<Rightarrow> None
                   | Some h \<Rightarrow> if h = [] then None else Some (parseInt h)))"
  using assms by (simp add: attempt_body_def ok_def handleErrorResponse_def Let_def)

lemma parseInt_5: "parseInt ''5'' = Finite 5"
  by (simp add: parseInt_def is_space_def is_digit_def digits_value_def to_double_def Let_def)

text \<open>
  C3. A response with status 429 and \<open>Retry-After: 5\<close> is mapped to a
  \<open>RateLimitError\<close> with retry-after 5, but the \<open>catch\<close> block of \<open>makeRequest\<close> does
  not re-throw a \<open>RateLimitError\<close>: it is neither an \<open>AuthenticationError\<close> nor a
  \<open>QuotaExceededError\<close> nor an \<open>APIError\<close>. With the default three retries and a
  transport that always answers 429, \<open>query\<close> issues four requests, waits 1 s, 2 s and
  4 s, and throws the generic \<open>APIError\<close>; the caller never sees the
  \<open>RateLimitError\<close> or its retry-after value.
\<close>

theorem rate_limit_response_is_retried:
  "handleErrorResponse \<lparr> status = 429, statusText = ''Too Many Requests'', retry_after = Some ''5'',
                          json_result = Inr (JObj [(''detail'', JStr ''Rate limit exceeded'')]) \<rparr>
     = Inl (RateLimitError ''Rate limit exceeded'' (Some (Finite 5)))
   \<and> rethrown (RateLimitError ''Rate limit exceeded'' (Some (Finite 5))) = False
   \<and> query default_client
        (\<lambda>n rq. Resolves \<lparr> status = 429, statusText = ''Too Many Requests'', retry_after = Some ''5'',
                            json_result = Inr (JObj [(''detail'', JStr ''Rate limit exceeded'')]) \<rparr>)
        \<lparr> rq_query = ''What is Python?'', rq_storeId = None, rq_filters = None, rq_model = None \<rparr>
        new_world
     = (Inl (APIError ''Request failed after 4 attempts: Rate limit exceeded'' None),
        \<lparr> calls = replicate 4 (request_of default_client ''POST'' ''/api/v1/dev/query''
                                  (Some (JObj [(''query'', JStr ''What is Python?'')]))),
           sleeps = [1000, 2000, 4000] \<rparr>)"
proof -
  let ?r = "\<lparr> status = 429, statusText = ''Too Many Requests'', retry_after = Some ''5'',
              json_result = Inr (JObj [(''detail'', JStr ''Rate limit exceeded'')]) \<rparr>"
  let ?tr = "\<lambda>(n::nat) (rq::request). Resolves ?r"
  let ?rq = "\<lparr> rq_query = ''What is Python?'', rq_storeId = None, rq_filters = None, rq_model = None \<rparr>"
  let ?bdy = "Some (JObj (query_body ?rq))"
  have m: "js_to_string (errorMessage_of ?r) = ''Rate limit exceeded''"
    by (simp add: errorMessage_of_def or_else_def)
  have h: "handleErrorResponse ?r = Inl (RateLimitError ''Rate limit exceeded'' (Some (Finite 5)))"
    by (simp add: handleErrorResponse_def m parseInt_5)
  have b: "attempt_body (Resolves ?r) = Inl (RateLimitError ''Rate limit exceeded'' (Some (Finite 5)))"
    by (simp add: attempt_body_429 m parseInt_5)
  have "makeRequest default_client ?tr ''POST'' ''/api/v1/dev/query'' ?bdy new_world =
     (Inl (exhausted default_client (raised (attempt_body
             (?tr (length (calls new_world) + nat (maxRetries default_client))
                  (request_of default_client ''POST'' ''/api/v1/dev/query'' ?bdy))))),
      new_world\<lparr>calls := calls new_world @ replicate (nat (maxRetries default_client) + 1)
                    (request_of default_client ''POST'' ''/api/v1/dev/query'' ?bdy),
        sleeps := sleeps new_world @ map backoff [0..<nat (maxRetries default_client)]\<rparr>)"
    by (rule makeRequest_all_retried) (simp_all add: b retried_def default_client_def)
  moreover have "[0..<3] = [0, 1, 2]" by (simp add: upt_rec)
  moreover have "int_to_string 4 = ''4''"
    by (simp add: int_to_string_def nat_to_string.simps digit_char_def)
  ultimately have "query default_client ?tr ?rq new_world
     = (Inl (APIError ''Request failed after 4 attempts: Rate limit exceeded'' None),
        \<lparr> calls = replicate 4 (request_of default_client ''POST'' ''/api/v1/dev/query''
                                  (Some (JObj [(''query'', JStr ''What is Python?'')]))),
           sleeps = [1000, 2000, 4000] \<rparr>)"
    by (simp add: query_def b raised_def exhausted_def backoff_def default_client_def new_world_def
          query_body_def request_of_def)
  with h show ?thesis by simp
qed

subsection \<open>The request body of a query\<close>

lemma try_block_calls:
  "\<exists>k. calls (snd (try_block c tr meth endpoint bdy w))
         = calls w @ replicate k (request_of c meth endpoint bdy)"
proof (cases "0 \<le> timeout c \<and> timeout c \<le> 4294967295")
  case True
  then have "calls (snd (try_block c tr meth endpoint bdy w))
      = calls w @ replicate 1 (request_of c meth endpoint bdy)"
    by (simp add: try_block_request[OF build_request_valid])
  then show ?thesis by blast
next
  case False
  then have "calls (snd (try_block c tr meth endpoint bdy w))
      = calls w @ replicate 0 (request_of c meth endpoint bdy)"
    by (simp add: try_block_def build_request_def abortSignal_timeout_def)
  then show ?thesis by blast
qed

lemma attempt_loop_calls:
  "\<exists>n. calls (snd (attempt_loop c tr meth endpoint bdy a le w))
         = calls w @ replicate n (request_of c meth endpoint bdy)"
proof (induction c tr meth endpoint bdy a le w rule: attempt_loop.induct)
  case (1 c tr meth endpoint bdy attempt lastError w)
  let ?req = "request_of c meth endpoint bdy"
  show ?case
  proof (cases "attempt \<le> maxRetries c")
    case False
    then have "calls (snd (attempt_loop c tr meth endpoint bdy attempt lastError w))
        = calls w @ replicate 0 ?req"
      by (simp add: loop_step_done)
    then show ?thesis by blast
  next
    case True
    obtain x w1 where t: "try_block c tr meth endpoint bdy w = (x, w1)" by force
    from try_block_calls[of c tr meth endpoint bdy w] t
    obtain k where k: "calls w1 = calls w @ replicate k ?req" by auto
    show ?thesis
    proof (cases "\<exists>e. x = Inl e \<and> \<not> rethrown e")
      case False
      with True t have "attempt_loop c tr meth endpoint bdy attempt lastError w = (x, w1)"
        by (subst attempt_loop.simps) (auto split: sum.splits)
      with k show ?thesis by auto
    next
      case r: True
      then obtain e where e: "x = Inl e" "\<not> rethrown e" by blast
      let ?w2 = "if attempt < maxRetries c
                 then w1\<lparr>sleeps := sleeps w1 @ [min (1000 * 2 ^ nat attempt) 10000]\<rparr>
                 else w1"
      from "1.IH"[OF True t[symmetric] e(1) e(2)]
      obtain n where n: "calls (snd (attempt_loop c tr meth endpoint bdy (attempt + 1) (Some e) ?w2))
          = calls ?w2 @ replicate n ?req" by blast
      have "attempt_loop c tr meth endpoint bdy attempt lastError w
          = attempt_loop c tr meth endpoint bdy (attempt + 1) (Some e) ?w2"
        using True t e by (subst attempt_loop.simps) simp
      with n k have "calls (snd (attempt_loop c tr meth endpoint bdy attempt lastError w))
          = calls w @ replicate (k + n) ?req"
        by (simp add: replicate_add split: if_splits)
      then show ?thesis by blast
    qed
  qed
qed

lemma attempt_loop_first_call:
  assumes "0 \<le> timeout c" "timeout c \<le> 4294967295" "attempt \<le> maxRetries c"
  shows "\<exists>n. calls (snd (attempt_loop c tr meth endpoint bdy attempt le w))
           = calls w @ replicate (Suc n) (request_of c meth endpoint bdy)"
proof -
  let ?req = "request_of c meth endpoint bdy"
  let ?w1 = "w\<lparr>calls := calls w @ [?req]\<rparr>"
  let ?x = "attempt_body (tr (length (calls w)) ?req)"
  have t: "try_block c tr meth endpoint bdy w = (?x, ?w1)"
    using assms by (simp add: try_block_request[OF build_request_valid])
  show ?thesis
  proof (cases "\<exists>e. ?x = Inl e \<and> \<not> rethrown e")
    case False
    with assms t have "attempt_loop c tr meth endpoint bdy attempt le w = (?x, ?w1)"
      by (subst attempt_loop.simps) (auto split: sum.splits)
    then have "calls (snd (attempt_loop c tr meth endpoint bdy attempt le w))
        = calls w @ replicate (Suc 0) ?req" by simp
    then show ?thesis by blast
  next
    case True
    then obtain e where e: "?x = Inl e" "\<not> rethrown e" by blast
    let ?w2 = "if attempt < maxRetries c
               then ?w1\<lparr>sleeps := sleeps ?w1 @ [min (1000 * 2 ^ nat attempt) 10000]\<rparr>
               else ?w1"
    from attempt_loop_calls[of c tr meth endpoint bdy "attempt + 1" "Some e" ?w2]
    obtain n where n: "calls (snd (attempt_loop c tr meth endpoint bdy (attempt + 1) (Some e) ?w2))
        = calls ?w2 @ replicate n ?req" by blast
    have "attempt_loop c tr meth endpoint bdy attempt le w
        = attempt_loop c tr meth endpoint bdy (attempt + 1) (Some e) ?w2"
      using assms t e by (subst attempt_loop.simps) simp
    with n have "calls (snd (attempt_loop c tr meth endpoint bdy attempt le w))
        = calls w @ replicate (Suc n) ?req"
      by (simp split: if_splits)
    then show ?thesis by blast
  qed
qed

lemma query_calls:
  "\<exists>n. calls (snd (query c tr request w)) =
        calls w @ replicate n (request_of c ''POST'' ''/api/v1/dev/query''
                                 (Some (JObj (query_body request))))"
proof -
  let ?req = "request_of c ''POST'' ''/api/v1/dev/query'' (Some (JObj (query_body request)))"
  have "snd (query c tr request w)
      = snd (attempt_loop c tr ''POST'' ''/api/v1/dev/query'' (Some (JObj (query_body request))) 0 None w)"
    by (simp add: query_def makeRequest_def split: prod.splits sum.splits)
  then show ?thesis
    using attempt_loop_calls[of c tr "''POST''" "''/api/v1/dev/query''"
        "Some (JObj (query_body request))" 0 None w] by simp
qed

lemma query_first_call:
  assumes "0 \<le> timeout c" "timeout c \<le> 4294967295" "0 \<le> maxRetries c"
  shows "\<exists>n. calls (snd (query c tr request w)) =
        calls w @ replicate (Suc n) (request_of c ''POST'' ''/api/v1/dev/query''
                                 (Some (JObj (query_body request))))"
proof -
  have "snd (query c tr request w)
      = snd (attempt_loop c tr ''POST'' ''/api/v1/dev/query'' (Some (JObj (query_body request))) 0 None w)"
    by (simp add: query_def makeRequest_def split: prod.splits sum.splits)
  then show ?thesis
    using attempt_loop_first_call[OF assms, of tr "''POST''" "''/api/v1/dev/query''"
        "Some (JObj (query_body request))" None w] by simp
qed

lemma query_body_eq:
  "query_body request =
     [(''query'', JStr (rq_query request))]
     @ (case rq_storeId request of None \<Rightarrow> [] | Some s \<Rightarrow> [(''store_id'', JStr s)])
     @ (case rq_filters request of None \<Rightarrow> [] | Some f \<Rightarrow> [(''filters'', filters_json f)])
     @ (case rq_model request of None \<Rightarrow> [] | Some m \<Rightarrow> [(''model'', JStr m)])"
proof (cases "rq_storeId request"; cases "rq_filters request"; cases "rq_model request")
qed (simp_all add: query_body_def)

lemma query_body_lookup:
  "map_of (query_body request) ''query'' = Some (JStr (rq_query request))"
  "map_of (query_body request) ''store_id'' = map_option JStr (rq_storeId request)"
  "map_of (query_body request) ''filters'' = map_option filters_json (rq_filters request)"
  "map_of (query_body request) ''model'' = map_option JStr (rq_model request)"
  unfolding query_body_eq
  by (cases "rq_storeId request"; cases "rq_filters request"; cases "rq_model request"; simp)+

lemma query_body_key_set:
  "fst ` set (query_body request) =
     {''query''} \<union> (if rq_storeId request = None then {} else {''store_id''})
       \<union> (if rq_filters request = None then {} else {''filters''})
       \<union> (if rq_model request = None then {} else {''model''})"
  unfolding query_body_eq
  by (cases "rq_storeId request"; cases "rq_filters request"; cases "rq_model request";
      simp add: insert_commute)

lemma distinct_query_body: "distinct (map fst (query_body request))"
  unfolding query_body_eq
  by (cases "rq_storeId request"; cases "rq_filters request"; cases "rq_model request"; simp)

text \<open>
  C7. The body that \<open>query\<close> hands to every request it issues is the object
  \<open>query_body request\<close>, and when the timeout is one that \<open>AbortSignal.timeout\<close>
  accepts (from 0 to \<open>2 ^ 32 - 1\<close>) and the retry count is non-negative, \<open>query\<close> issues
  at least one request, with this body. The body has the key \<open>query\<close> with the query text; it has the key
  \<open>store_id\<close>, \<open>filters\<close>, \<open>model\<close> exactly when the caller provided \<open>storeId\<close>,
  \<open>filters\<close>, \<open>model\<close>, with the provided value; it has no other key and no key twice.
\<close>

theorem query_body_keys:
  "map_of (query_body request) ''query'' = Some (JStr (rq_query request))
   \<and> map_of (query_body request) ''store_id'' = map_option JStr (rq_storeId request)
   \<and> map_of (query_body request) ''filters'' = map_option filters_json (rq_filters request)
   \<and> map_of (query_body request) ''model'' = map_option JStr (rq_model request)
   \<and> (''store_id'' \<in> fst ` set (query_body request) \<longleftrightarrow> rq_storeId request \<noteq> None)
   \<and> (''filters'' \<in> fst ` set (query_body request) \<longleftrightarrow> rq_filters request \<noteq> None)
   \<and> (''model'' \<in> fst ` set (query_body request) \<longleftrightarrow> rq_model request \<noteq> None)
   \<and> fst ` set (query_body request) \<subseteq> {''query'', ''store_id'', ''filters'', ''model''}
   \<and> distinct (map fst (query_body request))
   \<and> body (request_of c ''POST'' ''/api/v1/dev/query'' (Some (JObj (query_body request))))
       = Some (JObj (query_body request))
   \<and> (\<exists>n. calls (snd (query c tr request w)) =
            calls w @ replicate n (request_of c ''POST'' ''/api/v1/dev/query''
                                     (Some (JObj (query_body request)))))
   \<and> (0 \<le> timeout c \<and> timeout c \<le> 4294967295 \<and> 0 \<le> maxRetries c
    \<longrightarrow> (\<exists>n. calls (snd (query c tr request w)) =
            calls w @ replicate (Suc n) (request_of c ''POST'' ''/api/v1/dev/query''
                                     (Some (JObj (query_body request))))))"
proof -
  have k: "''store_id'' \<in> fst ` set (query_body request) \<longleftrightarrow> rq_storeId request \<noteq> None"
     "''filters'' \<in> fst ` set (query_body request) \<longleftrightarrow> rq_filters request \<noteq> None"
     "''model'' \<in> fst ` set (query_body request) \<longleftrightarrow> rq_model request \<noteq> None"
     "fst ` set (query_body request) \<subseteq> {''query'', ''store_id'', ''filters'', ''model''}"
    unfolding query_body_key_set by simp_all
  have b: "body (request_of c ''POST'' ''/api/v1/dev/query'' (Some (JObj (query_body request))))
       = Some (JObj (query_body request))"
    by (simp add: request_of_def)
  have f: "0 \<le> timeout c \<and> timeout c \<le> 4294967295 \<and> 0 \<le> maxRetries c
    \<longrightarrow> (\<exists>n. calls (snd (query c tr request w)) =
            calls w @ replicate (Suc n) (request_of c ''POST'' ''/api/v1/dev/query''
                                     (Some (JObj (query_body request)))))"
    using query_first_call[of c tr request w] by blast
  show ?thesis
    by (intro conjI query_body_lookup k distinct_query_body b query_calls f)
qed

theorem query_body_keys_witness:
  "query_body \<lparr> rq_query = ''What is OOP?'', rq_storeId = Some ''abc123'', rq_filters = None,
                 rq_model = None \<rparr>
     = [(''query'', JStr ''What is OOP?''), (''store_id'', JStr ''abc123'')]
   \<and> ''store_id'' \<in> fst ` set (query_body \<lparr> rq_query = ''What is OOP?'', rq_storeId = Some ''abc123'',
                                              rq_filters = None, rq_model = None \<rparr>)
   \<and> ''model'' \<notin> fst ` set (query_body \<lparr> rq_query = ''What is OOP?'', rq_storeId = Some ''abc123'',
                                              rq_filters = None, rq_model = None \<rparr>)
   \<and> ''filters'' \<notin> fst ` set (query_body \<lparr> rq_query = ''What is OOP?'', rq_storeId = Some ''abc123'',
                                              rq_filters = None, rq_model = None \<rparr>)
   \<and> (\<exists>n. calls (snd (query default_client (\<lambda>n rq. Rejects ''TypeError'' ''fetch failed'')
                 \<lparr> rq_query = ''What is OOP?'', rq_storeId = Some ''abc123'', rq_filters = None,
                   rq_model = None \<rparr> new_world))
          = replicate (Suc n)
              \<lparr> url = ''https://api.brainus.lk/api/v1/dev/query'', http_method = ''POST'',
                headers = [(''X-API-Key'', ''brainus_test''), (''Content-Type'', ''application/json''),
                           (''User-Agent'', ''@brainus/ai/0.1.0'')],
                body = Some (JObj [(''query'', JStr ''What is OOP?''), (''store_id'', JStr ''abc123'')]),
                signal_timeout = 30000 \<rparr>)"
proof -
  let ?rq = "\<lparr> rq_query = ''What is OOP?'', rq_storeId = Some ''abc123'', rq_filters = None,
                 rq_model = None \<rparr>"
  have q: "query_body ?rq = [(''query'', JStr ''What is OOP?''), (''store_id'', JStr ''abc123'')]"
    by (simp add: query_body_def)
  note t = query_body_keys [where request = ?rq and c = default_client
      and tr = "\<lambda>n rq. Rejects ''TypeError'' ''fetch failed''" and w = new_world]
  from t have "''store_id'' \<in> fst ` set (query_body ?rq)" "''model'' \<notin> fst ` set (query_body ?rq)"
       "''filters'' \<notin> fst ` set (query_body ?rq)"
    by simp_all
  moreover from t have "\<exists>n. calls (snd (query default_client (\<lambda>n rq. Rejects ''TypeError'' ''fetch failed'')
                 ?rq new_world))
          = replicate (Suc n)
              \<lparr> url = ''https://api.brainus.lk/api/v1/dev/query'', http_method = ''POST'',
                headers = [(''X-API-Key'', ''brainus_test''), (''Content-Type'', ''application/json''),
                           (''User-Agent'', ''@brainus/ai/0.1.0'')],
                body = Some (JObj [(''query'', JStr ''What is OOP?''), (''store_id'', JStr ''abc123'')]),
                signal_timeout = 30000 \<rparr>"
    by (simp add: q default_client_def new_world_def request_of_def)
  ultimately show ?thesis using q by simp
qed

subsection \<open>Error mapping\<close>










subsection \<open>Response remapping\<close>

lemma makeRequest_first_success:
  assumes valid: "0 \<le> timeout c" "timeout c \<le> 4294967295"
    and "0 \<le> maxRetries c"
    and "tr (length (calls w)) (request_of c meth endpoint bdy) = Resolves r"
    and "ok r" "json_result r = Inr raw"
  shows "makeRequest c tr meth endpoint bdy w =
           (Inr raw, w\<lparr>calls := calls w @ [request_of c meth endpoint bdy]\<rparr>)"
proof -
  have s: "attempt_body (tr (length (calls w)) (request_of c meth endpoint bdy)) = Inr raw"
    using assms by (simp add: attempt_body_success)
  then have "\<not> retried (attempt_body (tr (length (calls w)) (request_of c meth endpoint bdy)))"
    by (simp add: retried_def)
  with assms(3) show ?thesis
    unfolding makeRequest_def by (simp add: loop_step_settled[OF build_request_valid[OF valid]] s)
qed

lemma remap_citation_object:
  "remap_citation (JObj ckvs) =
     Inr \<lparr> documentId = map_of ckvs ''document_id'', documentName = map_of ckvs ''document_name'',
           pages = or_else (map_of ckvs ''pages'') (JArr []), metadata = map_of ckvs ''metadata'',
           chunkText = map_of ckvs ''chunk_text'' \<rparr>"
  by (simp add: remap_citation_def and_then_def)

text \<open>
  C8. Let the timeout be one that \<open>AbortSignal.timeout\<close> accepts (from 0 to
  \<open>2 ^ 32 - 1\<close>) and the retry count non-negative, so that a first request is issued.
  When the first request of \<open>query\<close> is answered with a 2xx response with JSON
  body \<open>raw\<close>, \<open>query\<close> returns \<open>raw\<close> remapped, after that one request. The raw
  response \<open>{answer: "x", citations: [{document_id: "d1", document_name: "Doc",
  pages: [1, 2]}], has_citations: true}\<close> is remapped to \<open>{answer: "x", citations:
  [{documentId: "d1", documentName: "Doc", pages: [1, 2], metadata: undefined,
  chunkText: undefined}], hasCitations: true}\<close>. A raw response object without the key
  \<open>citations\<close> is remapped, without error, to a response with no citations. A raw
  citation object without the key \<open>pages\<close> is remapped to a citation with no pages.
\<close>

theorem query_remaps_response:
  "(0 \<le> timeout c \<and> timeout c \<le> 4294967295
      \<and> 0 \<le> maxRetries c
      \<and> tr (length (calls w))
            (request_of c ''POST'' ''/api/v1/dev/query'' (Some (JObj (query_body request))))
          = Resolves r
      \<and> ok r \<and> json_result r = Inr raw
    \<longrightarrow> query c tr request w =
          (remap_query raw,
           w\<lparr>calls := calls w @
                [request_of c ''POST'' ''/api/v1/dev/query'' (Some (JObj (query_body request)))]\<rparr>))
   \<and> remap_query
         (JObj [(''answer'', JStr ''x''),
                (''citations'', JArr [JObj [(''document_id'', JStr ''d1''),
                                            (''document_name'', JStr ''Doc''),
                                            (''pages'', JArr [JNum 1, JNum 2])]]),
                (''has_citations'', JBool True)])
       = Inr \<lparr> answer = Some (JStr ''x''),
               citations = [\<lparr> documentId = Some (JStr ''d1''), documentName = Some (JStr ''Doc''),
                              pages = JArr [JNum 1, JNum 2], metadata = None, chunkText = None \<rparr>],
               hasCitations = Some (JBool True) \<rparr>
   \<and> (map_of kvs ''citations'' = None
    \<longrightarrow> remap_query (JObj kvs) =
          Inr \<lparr> answer = map_of kvs ''answer'', citations = [],
                hasCitations = map_of kvs ''has_citations'' \<rparr>)
   \<and> (map_of ckvs ''pages'' = None
    \<longrightarrow> remap_citation (JObj ckvs) =
          Inr \<lparr> documentId = map_of ckvs ''document_id'', documentName = map_of ckvs ''document_name'',
                pages = JArr [], metadata = map_of ckvs ''metadata'',
                chunkText = map_of ckvs ''chunk_text'' \<rparr>)"
proof (intro conjI impI)
  assume "0 \<le> timeout c \<and> timeout c \<le> 4294967295
      \<and> 0 \<le> maxRetries c
      \<and> tr (length (calls w))
            (request_of c ''POST'' ''/api/v1/dev/query'' (Some (JObj (query_body request))))
          = Resolves r
      \<and> ok r \<and> json_result r = Inr raw"
  then have "makeRequest c tr ''POST'' ''/api/v1/dev/query'' (Some (JObj (query_body request))) w =
     (Inr raw, w\<lparr>calls := calls w @
         [request_of c ''POST'' ''/api/v1/dev/query'' (Some (JObj (query_body request)))]\<rparr>)"
    by (intro makeRequest_first_success) auto
  then show "query c tr request w =
          (remap_query raw,
           w\<lparr>calls := calls w @
                [request_of c ''POST'' ''/api/v1/dev/query'' (Some (JObj (query_body request)))]\<rparr>)"
    by (simp add: query_def)
next
  show "remap_query
         (JObj [(''answer'', JStr ''x''),
                (''citations'', JArr [JObj [(''document_id'', JStr ''d1''),
                                            (''document_name'', JStr ''Doc''),
                                            (''pages'', JArr [JNum 1, JNum 2])]]),
                (''has_citations'', JBool True)])
       = Inr \<lparr> answer = Some (JStr ''x''),
               citations = [\<lparr> documentId = Some (JStr ''d1''), documentName = Some (JStr ''Doc''),
                              pages = JArr [JNum 1, JNum 2], metadata = None, chunkText = None \<rparr>],
               hasCitations = Some (JBool True) \<rparr>"
    by (simp add: remap_query_def remap_citation_object and_then_def or_else_def)
next
  assume "map_of kvs ''citations'' = None"
  then show "remap_query (JObj kvs) =
          Inr \<lparr> answer = map_of kvs ''answer'', citations = [],
                hasCitations = map_of kvs ''has_citations'' \<rparr>"
    by (simp add: remap_query_def and_then_def or_else_def)
next
  assume "map_of ckvs ''pages'' = None"
  then show "remap_citation (JObj ckvs) =
          Inr \<lparr> documentId = map_of ckvs ''document_id'', documentName = map_of ckvs ''document_name'',
                pages = JArr [], metadata = map_of ckvs ''metadata'',
                chunkText = map_of ckvs ''chunk_text'' \<rparr>"
    by (simp add: remap_citation_object or_else_def)
qed

theorem query_remaps_response_witness:
  "query default_client
      (\<lambda>n rq. Resolves \<lparr> status = 200, statusText = ''OK'', retry_after = None,
          json_result = Inr (JObj [(''answer'', JStr ''x''),
                (''citations'', JArr [JObj [(''document_id'', JStr ''d1''),
                                            (''document_name'', JStr ''Doc''),
                                            (''pages'', JArr [JNum 1, JNum 2])]]),
                (''has_citations'', JBool True)]) \<rparr>)
      \<lparr> rq_query = ''q'', rq_storeId = None, rq_filters = None, rq_model = None \<rparr> new_world
   = (Inr \<lparr> answer = Some (JStr ''x''),
             citations = [\<lparr> documentId = Some (JStr ''d1''), documentName = Some (JStr ''Doc''),
                            pages = JArr [JNum 1, JNum 2], metadata = None, chunkText = None \<rparr>],
             hasCitations = Some (JBool True) \<rparr>,
      \<lparr> calls = [request_of default_client ''POST'' ''/api/v1/dev/query''
                   (Some (JObj [(''query'', JStr ''q'')]))],
         sleeps = [] \<rparr>)
   \<and> remap_query (JObj [(''answer'', JStr ''x''), (''has_citations'', JBool False)])
     = Inr \<lparr> answer = Some (JStr ''x''), citations = [], hasCitations = Some (JBool False) \<rparr>
   \<and> remap_citation (JObj [(''document_id'', JStr ''d1'')])
     = Inr \<lparr> documentId = Some (JStr ''d1''), documentName = None, pages = JArr [],
             metadata = None, chunkText = None \<rparr>"
proof -
  let ?raw = "JObj [(''answer'', JStr ''x''),
                (''citations'', JArr [JObj [(''document_id'', JStr ''d1''),
                                            (''document_name'', JStr ''Doc''),
                                            (''pages'', JArr [JNum 1, JNum 2])]]),
                (''has_citations'', JBool True)]"
  let ?r = "\<lparr> status = 200, statusText = ''OK'', retry_after = None, json_result = Inr ?raw \<rparr>"
  note t1 = query_remaps_response [where c = default_client and tr = "\<lambda>n rq. Resolves ?r"
      and w = new_world and r = ?r and raw = ?raw
      and request = "\<lparr> rq_query = ''q'', rq_storeId = None, rq_filters = None, rq_model = None \<rparr>"
      and kvs = "[(''answer'', JStr ''x''), (''has_citations'', JBool False)]"
      and ckvs = "[(''document_id'', JStr ''d1'')]"]
  then show ?thesis
    by (simp add: ok_def default_client_def new_world_def query_body_def)
qed

lemma remap_plan_object:
  "remap_plan (JObj pkvs) =
     Inr \<lparr> plan_id = map_of pkvs ''id'', plan_name = map_of pkvs ''name'',
           plan_description = map_of pkvs ''description'',
           rateLimitPerMinute = map_of pkvs ''rate_limit_per_minute'',
           rateLimitPerDay = map_of pkvs ''rate_limit_per_day'',
           monthlyQuota = map_of pkvs ''monthly_quota'', priceLkr = map_of pkvs ''price_lkr'',
           allowedModels = or_else (map_of pkvs ''allowed_models'') (JArr []),
           features = or_else (map_of pkvs ''features'') (JObj []),
           isActive = map_of pkvs ''is_active'' \<rparr>"
  by (simp add: remap_plan_def and_then_def)

text \<open>
  C9. Let the timeout be one that \<open>AbortSignal.timeout\<close> accepts (from 0 to
  \<open>2 ^ 32 - 1\<close>) and the retry count non-negative, so that a first request is issued.
  When the first request of \<open>getPlans\<close> is answered with a 2xx response with
  JSON body \<open>raw\<close>, \<open>getPlans\<close> returns \<open>raw\<close> remapped, after that one request. For a
  body object without the key \<open>plans\<close> the remapping throws a \<open>TypeError\<close> (the \<open>map\<close>
  of \<open>undefined\<close> is read); it does not return the empty list. A plan object without
  the keys \<open>allowed_models\<close> and \<open>features\<close> is remapped to a plan with no allowed
  models and the empty object for features.
\<close>

theorem getPlans_needs_plans_key:
  "(0 \<le> timeout c \<and> timeout c \<le> 4294967295
      \<and> 0 \<le> maxRetries c
      \<and> tr (length (calls w)) (request_of c ''GET'' ''/api/v1/dev/plans'' None) = Resolves r
      \<and> ok r \<and> json_result r = Inr raw
    \<longrightarrow> getPlans c tr w =
          (remap_plans raw,
           w\<lparr>calls := calls w @ [request_of c ''GET'' ''/api/v1/dev/plans'' None]\<rparr>))
   \<and> (map_of kvs ''plans'' = None
    \<longrightarrow> remap_plans (JObj kvs) = Inl (undefined_read ''map'')
        \<and> remap_plans (JObj kvs) \<noteq> Inr [])
   \<and> (map_of pkvs ''allowed_models'' = None \<and> map_of pkvs ''features'' = None
    \<longrightarrow> (\<exists>p. remap_plan (JObj pkvs) = Inr p \<and> allowedModels p = JArr [] \<and> features p = JObj [])
        \<and> remap_plans (JObj [(''plans'', JArr [JObj pkvs])]) =
            Inr [\<lparr> plan_id = map_of pkvs ''id'', plan_name = map_of pkvs ''name'',
                    plan_description = map_of pkvs ''description'',
                    rateLimitPerMinute = map_of pkvs ''rate_limit_per_minute'',
                    rateLimitPerDay = map_of pkvs ''rate_limit_per_day'',
                    monthlyQuota = map_of pkvs ''monthly_quota'', priceLkr = map_of pkvs ''price_lkr'',
                    allowedModels = JArr [], features = JObj [],
                    isActive = map_of pkvs ''is_active'' \<rparr>])"
proof (intro conjI impI)
  assume "0 \<le> timeout c \<and> timeout c \<le> 4294967295
      \<and> 0 \<le> maxRetries c
      \<and> tr (length (calls w)) (request_of c ''GET'' ''/api/v1/dev/plans'' None) = Resolves r
      \<and> ok r \<and> json_result r = Inr raw"
  then have "makeRequest c tr ''GET'' ''/api/v1/dev/plans'' None w =
     (Inr raw, w\<lparr>calls := calls w @ [request_of c ''GET'' ''/api/v1/dev/plans'' None]\<rparr>)"
    by (intro makeRequest_first_success) auto
  then show "getPlans c tr w =
          (remap_plans raw,
           w\<lparr>calls := calls w @ [request_of c ''GET'' ''/api/v1/dev/plans'' None]\<rparr>)"
    by (simp add: getPlans_def)
next
  assume "map_of kvs ''plans'' = None"
  then show "remap_plans (JObj kvs) = Inl (undefined_read ''map'')"
    by (simp add: remap_plans_def and_then_def)
next
  assume "map_of kvs ''plans'' = None"
  then show "remap_plans (JObj kvs) \<noteq> Inr []"
    by (simp add: remap_plans_def and_then_def)
next
  assume "map_of pkvs ''allowed_models'' = None \<and> map_of pkvs ''features'' = None"
  then show "\<exists>p. remap_plan (JObj pkvs) = Inr p \<and> allowedModels p = JArr [] \<and> features p = JObj []"
    by (simp add: remap_plan_object or_else_def)
next
  assume "map_of pkvs ''allowed_models'' = None \<and> map_of pkvs ''features'' = None"
  then show "remap_plans (JObj [(''plans'', JArr [JObj pkvs])]) =
            Inr [\<lparr> plan_id = map_of pkvs ''id'', plan_name = map_of pkvs ''name'',
                    plan_description = map_of pkvs ''description'',
                    rateLimitPerMinute = map_of pkvs ''rate_limit_per_minute'',
                    rateLimitPerDay = map_of pkvs ''rate_limit_per_day'',
                    monthlyQuota = map_of pkvs ''monthly_quota'', priceLkr = map_of pkvs ''price_lkr'',
                    allowedModels = JArr [], features = JObj [],
                    isActive = map_of pkvs ''is_active'' \<rparr>]"
    by (simp add: remap_plans_def remap_plan_object and_then_def or_else_def)
qed

theorem getPlans_needs_plans_key_witness:
  "getPlans default_client
      (\<lambda>n rq. Resolves \<lparr> status = 200, statusText = ''OK'', retry_after = None,
                          json_result = Inr (JObj [(''data'', JArr [])]) \<rparr>)
      new_world
   = (Inl (undefined_read ''map''),
      \<lparr> calls = [request_of default_client ''GET'' ''/api/v1/dev/plans'' None], sleeps = [] \<rparr>)
   \<and> remap_plans (JObj [(''plans'', JArr [JObj [(''id'', JStr ''free'')]])])
     = Inr [\<lparr> plan_id = Some (JStr ''free''), plan_name = None, plan_description = None,
               rateLimitPerMinute = None, rateLimitPerDay = None, monthlyQuota = None,
               priceLkr = None, allowedModels = JArr [], features = JObj [], isActive = None \<rparr>]"
proof -
  let ?raw = "JObj [(''data'', JArr [])]"
  let ?r = "\<lparr> status = 200, statusText = ''OK'', retry_after = None, json_result = Inr ?raw \<rparr>"
  note t = getPlans_needs_plans_key [where c = default_client and tr = "\<lambda>n rq. Resolves ?r"
      and w = new_world and r = ?r and raw = ?raw and kvs = "[(''data'', JArr [])]"
      and pkvs = "[(''id'', JStr ''free'')]"]
  then show ?thesis
    by (simp add: ok_def default_client_def new_world_def)
qed

subsection \<open>A timeout that the runtime refuses\<close>

text \<open>
  When \<open>AbortSignal.timeout\<close> refuses the timeout, every attempt throws its
  \<open>RangeError\<close> before \<open>fetch\<close> is called; the error is retried like a network failure.
  No request is ever issued, the waits are made all the same, and the caller gets the
  generic \<open>APIError\<close> with the \<open>RangeError\<close>'s message.
\<close>

lemma loop_step_refused:
  assumes "build_request c meth endpoint bdy = Inl err" "\<not> rethrown err"
    and "attempt \<le> maxRetries c"
  shows "attempt_loop c tr meth endpoint bdy attempt le w =
     attempt_loop c tr meth endpoint bdy (attempt + 1) (Some err)
       (if attempt < maxRetries c
        then w\<lparr>sleeps := sleeps w @ [min (1000 * 2 ^ nat attempt) 10000]\<rparr>
        else w)"
  using assms by (subst attempt_loop.simps) (simp add: try_block_def)

lemma loop_refused:
  assumes inv: "build_request c meth endpoint bdy = Inl err" "\<not> rethrown err"
  shows "0 \<le> a \<Longrightarrow> a + int n = maxRetries c + 1
    \<Longrightarrow> attempt_loop c tr meth endpoint bdy a le w =
       (Inl (exhausted c (if n = 0 then le else Some err)),
        w\<lparr>sleeps := sleeps w @ map backoff [nat a..<nat a + (n - 1)]\<rparr>)"
proof (induction n arbitrary: a le w)
  case 0
  then show ?case by (simp add: loop_step_done)
next
  case (Suc n)
  then have a: "a \<le> maxRetries c" by auto
  note e = loop_step_refused[OF inv a, of tr le w]
  show ?case
  proof (cases n)
    case 0
    with Suc.prems have "\<not> a + 1 \<le> maxRetries c" "\<not> a < maxRetries c" by auto
    then show ?thesis
      unfolding e using 0 by (simp add: loop_step_done)
  next
    case (Suc m)
    with Suc.prems have lt: "a < maxRetries c" by auto
    let ?w = "w\<lparr>sleeps := sleeps w @ [min (1000 * 2 ^ nat a) 10000]\<rparr>"
    have "attempt_loop c tr meth endpoint bdy (a + 1) (Some err) ?w =
       (Inl (exhausted c (if n = 0 then Some err else Some err)),
        ?w\<lparr>sleeps := sleeps ?w @ map backoff [nat (a + 1)..<nat (a + 1) + (n - 1)]\<rparr>)"
      by (rule Suc.IH) (use Suc.prems in auto)
    moreover have "nat (a + 1) = Suc (nat a)" using Suc.prems(1) by simp
    moreover have "[nat a..<nat a + n] = nat a # [Suc (nat a)..<Suc (nat a) + (n - 1)]"
      using Suc by (simp add: upt_rec)
    ultimately show ?thesis
      unfolding e using lt Suc by (simp add: backoff_def)
  qed
qed

lemma makeRequest_refused_timeout:
  assumes "timeout c < 0 \<or> 4294967295 < timeout c" "0 \<le> maxRetries c"
  shows "makeRequest c tr meth endpoint bdy w =
     (Inl (exhausted c (Some (out_of_range (timeout c)))),
      w\<lparr>sleeps := sleeps w @ map backoff [0..<nat (maxRetries c)]\<rparr>)"
proof -
  have "\<not> rethrown (out_of_range (timeout c))" by (simp add: out_of_range_def)
  from loop_refused[OF build_request_invalid[OF assms(1)] this,
      where a = 0 and n = "nat (maxRetries c) + 1" and tr = tr and le = None and w = w] assms(2)
  show ?thesis by (simp add: makeRequest_def)
qed

end
